theory Spec2Isabelle
  imports Main "HOL-Library.Word"
begin

section \<open>Common types\<close>

text \<open>
  Solidity's \<open>address\<close> is a 160-bit value and \<open>uint256\<close> a 256-bit unsigned integer.
  A failed \<open>require\<close> reverts the call with its message; under Solidity 0.8 an
  arithmetic overflow of \<open>++\<close> reverts with a panic. A reverted call changes no
  storage, so every state-changing function returns either the error or the new state.
  Events are not part of the model.
\<close>

type_synonym address = "160 word"
type_synonym uint256 = "256 word"

datatype error = Revert string | Panic

text \<open>Checked increment of a \<open>uint256\<close> (\<open>x++\<close> outside an \<open>unchecked\<close> block).\<close>

definition checked_inc :: "uint256 \<Rightarrow> error + uint256" where
  "checked_inc x = (if x + 1 = 0 then Inl Panic else Inr (x + 1))"

section \<open>CredentialRegistry\<close>

record Institution =
  name :: string
  website :: string
  email :: string
  walletAddress :: address
  verified :: bool
  registrationDate :: uint256
  credentialsIssued :: uint256
  documentHash :: string

text \<open>The value every key of a Solidity mapping holds before it is written.\<close>

definition empty_institution :: Institution where
  "empty_institution = \<lparr> name = [], website = [], email = [], walletAddress = 0,
     verified = False, registrationDate = 0, credentialsIssued = 0, documentHash = [] \<rparr>"

text \<open>
  Storage of the registry. Besides the contract's own variables it holds \<open>owner\<close>,
  the slot of the inherited \<open>Ownable\<close> (see \<open>onlyOwner\<close> below), which the
  constructor sets to the deployer.
\<close>

record registry =
  owner :: address
  institutions :: "address \<Rightarrow> Institution"
  authorizedIssuers :: "address \<Rightarrow> bool"
  issuerList :: "address list"
  admins :: "address \<Rightarrow> bool"

definition registry_constructor :: "address \<Rightarrow> registry" where
  "registry_constructor sender = \<lparr> owner = sender, institutions = (\<lambda>_. empty_institution),
     authorizedIssuers = (\<lambda>_. False), issuerList = [],
     admins = (\<lambda>_. False)(sender := True) \<rparr>"

definition onlyAdmin :: "registry \<Rightarrow> address \<Rightarrow> bool" where
  "onlyAdmin s sender = (admins s sender \<or> sender = owner s)"

text \<open>
  Modelled from the spec: \<open>Ownable\<close> (the modifier \<open>onlyOwner\<close> and \<open>owner()\<close>) is
  imported from OpenZeppelin and is not among the sources. The owner is the single
  super-admin, set at deploy time, who alone can add and remove admins.
\<close>

definition onlyOwner :: "registry \<Rightarrow> address \<Rightarrow> bool" where
  "onlyOwner s sender = (owner s = sender)"

definition addAdmin :: "registry \<Rightarrow> address \<Rightarrow> address \<Rightarrow> error + registry" where
  "addAdmin s sender admin =
     (if \<not> onlyOwner s sender then Inl (Revert ''Ownable: caller is not the owner'')
      else Inr (s\<lparr>admins := (admins s)(admin := True)\<rparr>))"

definition removeAdmin :: "registry \<Rightarrow> address \<Rightarrow> address \<Rightarrow> error + registry" where
  "removeAdmin s sender admin =
     (if \<not> onlyOwner s sender then Inl (Revert ''Ownable: caller is not the owner'')
      else Inr (s\<lparr>admins := (admins s)(admin := False)\<rparr>))"

definition registerInstitution ::
  "registry \<Rightarrow> address \<Rightarrow> uint256 \<Rightarrow> address \<Rightarrow> string \<Rightarrow> string \<Rightarrow> string \<Rightarrow> string
     \<Rightarrow> error + registry" where
  "registerInstitution s sender now institutionAddress nm web mail doc =
     (if \<not> onlyAdmin s sender then Inl (Revert ''Not authorized admin'')
      else if institutionAddress = 0 then Inl (Revert ''Invalid address'')
      else if \<not> length nm > 0 then Inl (Revert ''Name cannot be empty'')
      else if \<not> length (name (institutions s institutionAddress)) = 0
        then Inl (Revert ''Institution already registered'')
      else Inr (s\<lparr>institutions := (institutions s)(institutionAddress :=
             \<lparr> name = nm, website = web, email = mail, walletAddress = institutionAddress,
               verified = False, registrationDate = now, credentialsIssued = 0,
               documentHash = doc \<rparr>)\<rparr>))"

definition verifyInstitution :: "registry \<Rightarrow> address \<Rightarrow> address \<Rightarrow> error + registry" where
  "verifyInstitution s sender institutionAddress =
     (if \<not> onlyAdmin s sender then Inl (Revert ''Not authorized admin'')
      else if \<not> length (name (institutions s institutionAddress)) > 0
        then Inl (Revert ''Institution not registered'')
      else if verified (institutions s institutionAddress) then Inl (Revert ''Already verified'')
      else Inr (s\<lparr>institutions := (institutions s)(institutionAddress :=
                     (institutions s institutionAddress)\<lparr>verified := True\<rparr>),
                  authorizedIssuers := (authorizedIssuers s)(institutionAddress := True),
                  issuerList := issuerList s @ [institutionAddress]\<rparr>))"

text \<open>
  The removal loop of \<open>revokeInstitution\<close>: at the first index holding the address,
  the last element is copied over it, the list is popped, and the loop breaks.
\<close>

function remove_issuer :: "nat \<Rightarrow> address \<Rightarrow> address list \<Rightarrow> address list" where
  "remove_issuer i a xs =
     (if i < length xs
      then (if xs ! i = a then butlast (xs[i := xs ! (length xs - 1)])
            else remove_issuer (i + 1) a xs)
      else xs)"
  by pat_completeness auto
termination
  by (relation "measure (\<lambda>(i, a, xs). length xs - i)") auto

declare remove_issuer.simps [simp del]

definition revokeInstitution :: "registry \<Rightarrow> address \<Rightarrow> address \<Rightarrow> error + registry" where
  "revokeInstitution s sender institutionAddress =
     (if \<not> onlyAdmin s sender then Inl (Revert ''Not authorized admin'')
      else if \<not> authorizedIssuers s institutionAddress
        then Inl (Revert ''Institution not authorized'')
      else Inr (s\<lparr>authorizedIssuers := (authorizedIssuers s)(institutionAddress := False),
                  institutions := (institutions s)(institutionAddress :=
                     (institutions s institutionAddress)\<lparr>verified := False\<rparr>),
                  issuerList := remove_issuer 0 institutionAddress (issuerList s)\<rparr>))"

definition isAuthorizedIssuer :: "registry \<Rightarrow> address \<Rightarrow> bool" where
  "isAuthorizedIssuer s issuer = authorizedIssuers s issuer"

definition getInstitution :: "registry \<Rightarrow> address \<Rightarrow> Institution" where
  "getInstitution s institutionAddress = institutions s institutionAddress"

definition getAllIssuers :: "registry \<Rightarrow> address list" where
  "getAllIssuers s = issuerList s"

text \<open>
  \<open>incrementCredentialCount\<close> is \<open>external\<close> and has no modifier: the caller
  (\<open>msg.sender\<close>) is not consulted, only the argument is.
\<close>

definition incrementCredentialCount :: "registry \<Rightarrow> address \<Rightarrow> address \<Rightarrow> error + registry" where
  "incrementCredentialCount s sender issuer =
     (if \<not> authorizedIssuers s issuer then Inl (Revert ''Not authorized issuer'')
      else case checked_inc (credentialsIssued (institutions s issuer)) of
             Inl e \<Rightarrow> Inl e
           | Inr n \<Rightarrow> Inr (s\<lparr>institutions := (institutions s)(issuer :=
                         (institutions s issuer)\<lparr>credentialsIssued := n\<rparr>)\<rparr>))"

definition updateInstitutionInfo ::
  "registry \<Rightarrow> address \<Rightarrow> address \<Rightarrow> string \<Rightarrow> string \<Rightarrow> string \<Rightarrow> error + registry" where
  "updateInstitutionInfo s sender institutionAddress nm web mail =
     (if \<not> onlyAdmin s sender then Inl (Revert ''Not authorized admin'')
      else if \<not> length (name (institutions s institutionAddress)) > 0
        then Inl (Revert ''Institution not registered'')
      else Inr (s\<lparr>institutions := (institutions s)(institutionAddress :=
                     (institutions s institutionAddress)\<lparr>name := nm, website := web, email := mail\<rparr>)\<rparr>))"

definition updateInstitutionDocuments ::
  "registry \<Rightarrow> address \<Rightarrow> address \<Rightarrow> string \<Rightarrow> error + registry" where
  "updateInstitutionDocuments s sender institutionAddress doc =
     (if \<not> onlyAdmin s sender then Inl (Revert ''Not authorized admin'')
      else if \<not> length (name (institutions s institutionAddress)) > 0
        then Inl (Revert ''Institution not registered'')
      else Inr (s\<lparr>institutions := (institutions s)(institutionAddress :=
                     (institutions s institutionAddress)\<lparr>documentHash := doc\<rparr>)\<rparr>))"

definition isAdmin :: "registry \<Rightarrow> address \<Rightarrow> bool" where
  "isAdmin s account = (admins s account \<or> account = owner s)"

subsection \<open>Sequences of registry transactions\<close>

datatype registry_call =
    RegisterInstitution address string string string string
  | VerifyInstitution address
  | RevokeInstitution address
  | UpdateInstitutionInfo address string string string
  | UpdateInstitutionDocuments address string
  | AddAdmin address
  | RemoveAdmin address
  | IncrementCredentialCount address

text \<open>A transaction: its sender, the timestamp of its block, and the call.\<close>

type_synonym registry_tx = "address \<times> uint256 \<times> registry_call"

fun registry_exec :: "registry \<Rightarrow> registry_tx \<Rightarrow> error + registry" where
  "registry_exec s (sender, now, RegisterInstitution a nm web mail doc) =
     registerInstitution s sender now a nm web mail doc"
| "registry_exec s (sender, now, VerifyInstitution a) = verifyInstitution s sender a"
| "registry_exec s (sender, now, RevokeInstitution a) = revokeInstitution s sender a"
| "registry_exec s (sender, now, UpdateInstitutionInfo a nm web mail) =
     updateInstitutionInfo s sender a nm web mail"
| "registry_exec s (sender, now, UpdateInstitutionDocuments a doc) =
     updateInstitutionDocuments s sender a doc"
| "registry_exec s (sender, now, AddAdmin a) = addAdmin s sender a"
| "registry_exec s (sender, now, RemoveAdmin a) = removeAdmin s sender a"
| "registry_exec s (sender, now, IncrementCredentialCount a) =
     incrementCredentialCount s sender a"

text \<open>A reverted transaction leaves the storage as it was.\<close>

definition registry_step :: "registry \<Rightarrow> registry_tx \<Rightarrow> registry" where
  "registry_step s t = (case registry_exec s t of Inl e \<Rightarrow> s | Inr s' \<Rightarrow> s')"

definition registry_run :: "registry \<Rightarrow> registry_tx list \<Rightarrow> registry" where
  "registry_run s ts = foldl registry_step s ts"

definition succeeds :: "registry \<Rightarrow> registry_tx \<Rightarrow> bool" where
  "succeeds s t = (case registry_exec s t of Inl e \<Rightarrow> False | Inr s' \<Rightarrow> True)"

text \<open>
  The history of a transaction list \<open>ts\<close> run from \<open>s\<close>: the \<open>i\<close>-th transaction is a
  \<open>verifyInstitution a\<close> (respectively \<open>revokeInstitution a\<close>) that did not revert.
\<close>

definition verify_succeeded_at :: "registry \<Rightarrow> registry_tx list \<Rightarrow> nat \<Rightarrow> address \<Rightarrow> bool" where
  "verify_succeeded_at s ts i a =
     (i < length ts \<and> snd (snd (ts ! i)) = VerifyInstitution a
        \<and> succeeds (registry_run s (take i ts)) (ts ! i))"

definition revoke_succeeded_at :: "registry \<Rightarrow> registry_tx list \<Rightarrow> nat \<Rightarrow> address \<Rightarrow> bool" where
  "revoke_succeeded_at s ts i a =
     (i < length ts \<and> snd (snd (ts ! i)) = RevokeInstitution a
        \<and> succeeds (registry_run s (take i ts)) (ts ! i))"

section \<open>CredentialNFT\<close>

record Credential =
  issuer :: address
  recipient :: address
  credentialType :: string
  institutionName :: string
  issueDate :: uint256
  expiryDate :: uint256
  ipfsHash :: string
  revoked :: bool

definition empty_credential :: Credential where
  "empty_credential = \<lparr> issuer = 0, recipient = 0, credentialType = [], institutionName = [],
     issueDate = 0, expiryDate = 0, ipfsHash = [], revoked = False \<rparr>"

text \<open>
  Modelled from the spec: the fields \<open>owners\<close>, \<open>tokenApprovals\<close>,
  \<open>operatorApprovals\<close> and \<open>tokenURIs\<close> are the storage of the ERC721 base contracts,
  which are imported from OpenZeppelin and are not among the sources. A credential
  records token ownership, held by exactly one address at any time, which may change
  by transfer; a token id that was never minted is not found, and tokens are never
  destroyed. \<open>owners\<close> holds the zero address for a token that was never minted;
  balances are left out.

  The other fields are the contract's own storage: the counter of token ids, the
  credentials and the index of each recipient's tokens. \<open>nft_address\<close> is the address
  the contract is deployed at (the \<open>msg.sender\<close> of the calls it makes) and
  \<open>nft_owner\<close> the slot of \<open>Ownable\<close>. The contract is bound to the registry it was
  constructed with, as \<open>scripts/deploy.js\<close> and \<open>CredentialFactory.deploySystem\<close>
  deploy it; the owner-only re-pointing \<open>updateRegistry\<close>, which writes no other
  slot, is outside the model.
\<close>

record ledger =
  nft_address :: address
  nft_owner :: address
  tokenIdCounter :: uint256
  credentials :: "uint256 \<Rightarrow> Credential"
  userCredentials :: "address \<Rightarrow> uint256 list"
  owners :: "uint256 \<Rightarrow> address"
  tokenApprovals :: "uint256 \<Rightarrow> address"
  operatorApprovals :: "address \<Rightarrow> address \<Rightarrow> bool"
  tokenURIs :: "uint256 \<Rightarrow> string"

definition ledger_constructor :: "address \<Rightarrow> address \<Rightarrow> ledger" where
  "ledger_constructor self sender = \<lparr> nft_address = self, nft_owner = sender,
     tokenIdCounter = 0, credentials = (\<lambda>_. empty_credential), userCredentials = (\<lambda>_. []),
     owners = (\<lambda>_. 0), tokenApprovals = (\<lambda>_. 0), operatorApprovals = (\<lambda>_ _. False),
     tokenURIs = (\<lambda>_. []) \<rparr>"

text \<open>
  Modelled from the spec: \<open>_exists\<close> of the ERC721 base, not among the sources. A
  token exists from its mint on; it is never burned.
\<close>

definition exists_token :: "ledger \<Rightarrow> uint256 \<Rightarrow> bool" where
  "exists_token l tokenId = (owners l tokenId \<noteq> 0)"

text \<open>
  Modelled from the spec: \<open>_mint\<close> of the ERC721 base, not among the sources. It
  records the recipient as the owner of a token id that is not yet in use.
\<close>

definition mint :: "ledger \<Rightarrow> address \<Rightarrow> uint256 \<Rightarrow> error + ledger" where
  "mint l to tokenId =
     (if to = 0 then Inl (Revert ''ERC721: mint to the zero address'')
      else if exists_token l tokenId then Inl (Revert ''ERC721: token already minted'')
      else Inr (l\<lparr>owners := (owners l)(tokenId := to)\<rparr>))"

text \<open>
  Modelled from the spec: \<open>_setTokenURI\<close> of \<open>ERC721URIStorage\<close>, not among the
  sources. It stores the token URI given at issuance.
\<close>

definition setTokenURI :: "ledger \<Rightarrow> uint256 \<Rightarrow> string \<Rightarrow> error + ledger" where
  "setTokenURI l tokenId uri =
     (if \<not> exists_token l tokenId then Inl (Revert ''ERC721URIStorage: URI set of nonexistent token'')
      else Inr (l\<lparr>tokenURIs := (tokenURIs l)(tokenId := uri)\<rparr>))"

text \<open>
  Modelled from the spec: \<open>ownerOf\<close>, the approvals and \<open>transferFrom\<close> of the ERC721
  base, not among the sources. The owner of a token, or an address the owner has
  approved, may transfer it to another address, which then is its one owner.
\<close>

definition ownerOf :: "ledger \<Rightarrow> uint256 \<Rightarrow> error + address" where
  "ownerOf l tokenId =
     (if owners l tokenId = 0 then Inl (Revert ''ERC721: invalid token ID'')
      else Inr (owners l tokenId))"

text \<open>Modelled from the spec: \<open>_isApprovedOrOwner\<close> of the ERC721 base.\<close>

definition isApprovedOrOwner :: "ledger \<Rightarrow> address \<Rightarrow> uint256 \<Rightarrow> error + bool" where
  "isApprovedOrOwner l spender tokenId =
     (case ownerOf l tokenId of
        Inl e \<Rightarrow> Inl e
      | Inr ow \<Rightarrow> Inr (spender = ow \<or> operatorApprovals l ow spender
                       \<or> tokenApprovals l tokenId = spender))"

text \<open>Modelled from the spec: \<open>approve\<close> of the ERC721 base.\<close>

definition approve :: "ledger \<Rightarrow> address \<Rightarrow> address \<Rightarrow> uint256 \<Rightarrow> error + ledger" where
  "approve l sender to tokenId =
     (case ownerOf l tokenId of
        Inl e \<Rightarrow> Inl e
      | Inr ow \<Rightarrow>
          if to = ow then Inl (Revert ''ERC721: approval to current owner'')
          else if \<not> (sender = ow \<or> operatorApprovals l ow sender)
            then Inl (Revert ''ERC721: approve caller is not token owner or approved for all'')
          else Inr (l\<lparr>tokenApprovals := (tokenApprovals l)(tokenId := to)\<rparr>))"

text \<open>Modelled from the spec: \<open>setApprovalForAll\<close> of the ERC721 base.\<close>

definition setApprovalForAll :: "ledger \<Rightarrow> address \<Rightarrow> address \<Rightarrow> bool \<Rightarrow> error + ledger" where
  "setApprovalForAll l sender operator approved =
     (if sender = operator then Inl (Revert ''ERC721: approve to caller'')
      else Inr (l\<lparr>operatorApprovals :=
             (operatorApprovals l)(sender := (operatorApprovals l sender)(operator := approved))\<rparr>))"

text \<open>Modelled from the spec: \<open>transferFrom\<close> of the ERC721 base.\<close>

definition transferFrom :: "ledger \<Rightarrow> address \<Rightarrow> address \<Rightarrow> address \<Rightarrow> uint256 \<Rightarrow> error + ledger" where
  "transferFrom l sender from to tokenId =
     (case isApprovedOrOwner l sender tokenId of
        Inl e \<Rightarrow> Inl e
      | Inr ok \<Rightarrow>
          if \<not> ok then Inl (Revert ''ERC721: caller is not token owner or approved'')
          else if owners l tokenId \<noteq> from then Inl (Revert ''ERC721: transfer from incorrect owner'')
          else if to = 0 then Inl (Revert ''ERC721: transfer to the zero address'')
          else Inr (l\<lparr>tokenApprovals := (tokenApprovals l)(tokenId := 0),
                      owners := (owners l)(tokenId := to)\<rparr>))"

text \<open>
  \<open>issueCredential\<close>, under the modifier \<open>onlyAuthorizedIssuer\<close>. The counter is read
  and then incremented (\<open>Counters\<close>, imported from OpenZeppelin, increments without
  overflow check); the registry is called back to count the issuance. The result is
  the new registry, the new ledger and the token id.
\<close>

definition issueCredential ::
  "registry \<Rightarrow> ledger \<Rightarrow> address \<Rightarrow> uint256 \<Rightarrow> address \<Rightarrow> string \<Rightarrow> string \<Rightarrow> uint256 \<Rightarrow> string
     \<Rightarrow> string \<Rightarrow> error + (registry \<times> ledger \<times> uint256)" where
  "issueCredential r l sender now rcp ctype iname expiry ipfs uri =
     (if \<not> isAuthorizedIssuer r sender then Inl (Revert ''Not authorized issuer'')
      else
        let tokenId = tokenIdCounter l;
            l1 = l\<lparr>tokenIdCounter := tokenId + 1\<rparr>;
            l2 = l1\<lparr>credentials := (credentials l1)(tokenId :=
                    \<lparr> issuer = sender, recipient = rcp, credentialType = ctype,
                      institutionName = iname, issueDate = now, expiryDate = expiry,
                      ipfsHash = ipfs, revoked = False \<rparr>)\<rparr>;
            l3 = l2\<lparr>userCredentials := (userCredentials l2)(rcp :=
                    userCredentials l2 rcp @ [tokenId])\<rparr>
        in case mint l3 rcp tokenId of
             Inl e \<Rightarrow> Inl e
           | Inr l4 \<Rightarrow>
               (case setTokenURI l4 tokenId uri of
                  Inl e \<Rightarrow> Inl e
                | Inr l5 \<Rightarrow>
                    (case incrementCredentialCount r (nft_address l5) sender of
                       Inl e \<Rightarrow> Inl e
                     | Inr r' \<Rightarrow> Inr (r', l5, tokenId))))"

text \<open>The loop of \<open>batchIssueCredentials\<close>: one \<open>issueCredential\<close> per index.\<close>

function batch_issue_loop ::
  "nat \<Rightarrow> address \<Rightarrow> uint256 \<Rightarrow> address list \<Rightarrow> string list \<Rightarrow> string \<Rightarrow> uint256 \<Rightarrow> string list
     \<Rightarrow> string list \<Rightarrow> registry \<Rightarrow> ledger \<Rightarrow> error + (registry \<times> ledger)" where
  "batch_issue_loop i sender now recipients credentialTypes iname expiry ipfsHashes uris r l =
     (if i < length recipients
      then (case issueCredential r l sender now (recipients ! i) (credentialTypes ! i) iname
                   expiry (ipfsHashes ! i) (uris ! i) of
              Inl e \<Rightarrow> Inl e
            | Inr (r', l', tokenId) \<Rightarrow>
                batch_issue_loop (i + 1) sender now recipients credentialTypes iname expiry
                  ipfsHashes uris r' l')
      else Inr (r, l))"
  by pat_completeness auto
termination
  by (relation "measure (\<lambda>(i, sender, now, recipients, rest). length recipients - i)") auto

declare batch_issue_loop.simps [simp del]

definition batchIssueCredentials ::
  "registry \<Rightarrow> ledger \<Rightarrow> address \<Rightarrow> uint256 \<Rightarrow> address list \<Rightarrow> string list \<Rightarrow> string \<Rightarrow> uint256
     \<Rightarrow> string list \<Rightarrow> string list \<Rightarrow> error + (registry \<times> ledger)" where
  "batchIssueCredentials r l sender now recipients credentialTypes iname expiry ipfsHashes uris =
     (if \<not> isAuthorizedIssuer r sender then Inl (Revert ''Not authorized issuer'')
      else if length recipients \<noteq> length credentialTypes then Inl (Revert ''Array length mismatch'')
      else if length recipients \<noteq> length ipfsHashes then Inl (Revert ''Array length mismatch'')
      else if length recipients \<noteq> length uris then Inl (Revert ''Array length mismatch'')
      else batch_issue_loop 0 sender now recipients credentialTypes iname expiry ipfsHashes
             uris r l)"

definition revokeCredential :: "ledger \<Rightarrow> address \<Rightarrow> uint256 \<Rightarrow> error + ledger" where
  "revokeCredential l sender tokenId =
     (if \<not> exists_token l tokenId then Inl (Revert ''Credential does not exist'')
      else if \<not> issuer (credentials l tokenId) = sender then Inl (Revert ''Only issuer can revoke'')
      else if revoked (credentials l tokenId) then Inl (Revert ''Already revoked'')
      else Inr (l\<lparr>credentials := (credentials l)(tokenId :=
                    (credentials l tokenId)\<lparr>revoked := True\<rparr>)\<rparr>))"

text \<open>
  \<open>verifyCredential\<close> returns, in this order: isValid, issuer, recipient,
  credentialType, institutionName, issueDate, expired, revoked. \<open>now\<close> is
  \<open>block.timestamp\<close>; the comparison of two \<open>uint256\<close> is unsigned.
\<close>

type_synonym ledger_verdict =
  "bool \<times> address \<times> address \<times> string \<times> string \<times> uint256 \<times> bool \<times> bool"

definition verifyCredential :: "ledger \<Rightarrow> uint256 \<Rightarrow> uint256 \<Rightarrow> error + ledger_verdict" where
  "verifyCredential l now tokenId =
     (if \<not> exists_token l tokenId then Inl (Revert ''Credential does not exist'')
      else
        let cred = credentials l tokenId;
            hasExpired = (expiryDate cred \<noteq> 0 \<and> now > expiryDate cred)
        in Inr (\<not> revoked cred \<and> \<not> hasExpired, issuer cred, recipient cred,
                credentialType cred, institutionName cred, issueDate cred, hasExpired,
                revoked cred))"

definition getUserCredentials :: "ledger \<Rightarrow> address \<Rightarrow> uint256 list" where
  "getUserCredentials l user = userCredentials l user"

definition getCredential :: "ledger \<Rightarrow> uint256 \<Rightarrow> error + Credential" where
  "getCredential l tokenId =
     (if \<not> exists_token l tokenId then Inl (Revert ''Credential does not exist'')
      else Inr (credentials l tokenId))"

definition getTotalCredentials :: "ledger \<Rightarrow> uint256" where
  "getTotalCredentials l = tokenIdCounter l"

section \<open>VerificationContract\<close>

text \<open>The fields of the struct \<open>VerificationResult\<close>, each with the prefix \<open>res_\<close>.\<close>

record VerificationResult =
  res_isValid :: bool
  res_exists :: bool
  res_expired :: bool
  res_revoked :: bool
  res_issuer :: address
  res_recipient :: address
  res_credentialType :: string
  res_institutionName :: string
  res_issueDate :: uint256
  res_message :: string

record verification =
  verificationCount :: "uint256 \<Rightarrow> uint256"
  verifierCount :: "address \<Rightarrow> uint256"
  totalVerifications :: uint256

definition verification_constructor :: verification where
  "verification_constructor = \<lparr> verificationCount = (\<lambda>_. 0), verifierCount = (\<lambda>_. 0),
     totalVerifications = 0 \<rparr>"

text \<open>
  \<open>verifyCredentialDetailed\<close> reads the credential contract \<open>l\<close> and the registry \<open>r\<close>
  it was constructed with. The three counters are incremented (with overflow check)
  before the \<open>try\<close>; the \<open>catch\<close> clause takes any revert of the external call.
\<close>

definition verifyCredentialDetailed ::
  "registry \<Rightarrow> ledger \<Rightarrow> verification \<Rightarrow> address \<Rightarrow> uint256 \<Rightarrow> uint256
     \<Rightarrow> error + (verification \<times> VerificationResult)" where
  "verifyCredentialDetailed r l v sender now tokenId =
     (case checked_inc (verificationCount v tokenId) of
        Inl e \<Rightarrow> Inl e
      | Inr n1 \<Rightarrow>
     (let v1 = v\<lparr>verificationCount := (verificationCount v)(tokenId := n1)\<rparr> in
      case checked_inc (verifierCount v1 sender) of
        Inl e \<Rightarrow> Inl e
      | Inr n2 \<Rightarrow>
     (let v2 = v1\<lparr>verifierCount := (verifierCount v1)(sender := n2)\<rparr> in
      case checked_inc (totalVerifications v2) of
        Inl e \<Rightarrow> Inl e
      | Inr n3 \<Rightarrow>
     (let v3 = v2\<lparr>totalVerifications := n3\<rparr> in
      case verifyCredential l now tokenId of
        Inr (isValid, iss, rcp, ctype, iname, idate, expired, rvk) \<Rightarrow>
          let (message, finalValid) =
                (if rvk then (''Credential has been revoked by issuer'', False)
                 else if expired then (''Credential has expired'', False)
                 else if \<not> isAuthorizedIssuer r iss then (''Issuer is no longer authorized'', False)
                 else if isValid then (''Credential is valid and verified'', isValid)
                 else (''Credential is invalid'', isValid))
          in Inr (v3, \<lparr> res_isValid = finalValid, res_exists = True, res_expired = expired,
                        res_revoked = rvk, res_issuer = iss, res_recipient = rcp,
                        res_credentialType = ctype, res_institutionName = iname,
                        res_issueDate = idate, res_message = message \<rparr>)
      | Inl e \<Rightarrow>
          Inr (v3, \<lparr> res_isValid = False, res_exists = False, res_expired = False,
                     res_revoked = False, res_issuer = 0, res_recipient = 0,
                     res_credentialType = [], res_institutionName = [],
                     res_issueDate = 0, res_message = ''Credential does not exist'' \<rparr>)))))"

fun batchVerifyCredentials ::
  "registry \<Rightarrow> ledger \<Rightarrow> verification \<Rightarrow> address \<Rightarrow> uint256 \<Rightarrow> uint256 list
     \<Rightarrow> error + (verification \<times> VerificationResult list)" where
  "batchVerifyCredentials r l v sender now [] = Inr (v, [])"
| "batchVerifyCredentials r l v sender now (tokenId # tokenIds) =
     (case verifyCredentialDetailed r l v sender now tokenId of
        Inl e \<Rightarrow> Inl e
      | Inr (v', res) \<Rightarrow>
          (case batchVerifyCredentials r l v' sender now tokenIds of
             Inl e \<Rightarrow> Inl e
           | Inr (v'', ress) \<Rightarrow> Inr (v'', res # ress)))"

definition quickVerify :: "registry \<Rightarrow> ledger \<Rightarrow> uint256 \<Rightarrow> uint256 \<Rightarrow> bool" where
  "quickVerify r l now tokenId =
     (case verifyCredential l now tokenId of
        Inr (isValid, iss, rest) \<Rightarrow> isValid \<and> isAuthorizedIssuer r iss
      | Inl e \<Rightarrow> False)"

section \<open>The deployed system\<close>

text \<open>
  The three contracts together, and the transactions that can be sent to them. A
  reverted transaction changes nothing.
\<close>

record world =
  reg :: registry
  nft :: ledger
  ver :: verification

datatype world_call =
    RegistryCall registry_call
  | IssueCredential address string string uint256 string string
  | BatchIssueCredentials "address list" "string list" string uint256 "string list" "string list"
  | RevokeCredential uint256
  | Approve address uint256
  | SetApprovalForAll address bool
  | TransferFrom address address uint256
  | VerifyCredentialDetailed uint256
  | BatchVerifyCredentials "uint256 list"

type_synonym world_tx = "address \<times> uint256 \<times> world_call"

fun world_exec :: "world \<Rightarrow> world_tx \<Rightarrow> error + world" where
  "world_exec w (sender, now, RegistryCall c) =
     (case registry_exec (reg w) (sender, now, c) of
        Inl e \<Rightarrow> Inl e | Inr r' \<Rightarrow> Inr (w\<lparr>reg := r'\<rparr>))"
| "world_exec w (sender, now, IssueCredential rcp ctype iname expiry ipfs uri) =
     (case issueCredential (reg w) (nft w) sender now rcp ctype iname expiry ipfs uri of
        Inl e \<Rightarrow> Inl e | Inr (r', l', tokenId) \<Rightarrow> Inr (w\<lparr>reg := r', nft := l'\<rparr>))"
| "world_exec w (sender, now, BatchIssueCredentials rcps ctypes iname expiry ipfss uris) =
     (case batchIssueCredentials (reg w) (nft w) sender now rcps ctypes iname expiry ipfss uris of
        Inl e \<Rightarrow> Inl e | Inr (r', l') \<Rightarrow> Inr (w\<lparr>reg := r', nft := l'\<rparr>))"
| "world_exec w (sender, now, RevokeCredential tokenId) =
     (case revokeCredential (nft w) sender tokenId of
        Inl e \<Rightarrow> Inl e | Inr l' \<Rightarrow> Inr (w\<lparr>nft := l'\<rparr>))"
| "world_exec w (sender, now, Approve to tokenId) =
     (case approve (nft w) sender to tokenId of
        Inl e \<Rightarrow> Inl e | Inr l' \<Rightarrow> Inr (w\<lparr>nft := l'\<rparr>))"
| "world_exec w (sender, now, SetApprovalForAll operator approved) =
     (case setApprovalForAll (nft w) sender operator approved of
        Inl e \<Rightarrow> Inl e | Inr l' \<Rightarrow> Inr (w\<lparr>nft := l'\<rparr>))"
| "world_exec w (sender, now, TransferFrom from to tokenId) =
     (case transferFrom (nft w) sender from to tokenId of
        Inl e \<Rightarrow> Inl e | Inr l' \<Rightarrow> Inr (w\<lparr>nft := l'\<rparr>))"
| "world_exec w (sender, now, VerifyCredentialDetailed tokenId) =
     (case verifyCredentialDetailed (reg w) (nft w) (ver w) sender now tokenId of
        Inl e \<Rightarrow> Inl e | Inr (v', res) \<Rightarrow> Inr (w\<lparr>ver := v'\<rparr>))"
| "world_exec w (sender, now, BatchVerifyCredentials tokenIds) =
     (case batchVerifyCredentials (reg w) (nft w) (ver w) sender now tokenIds of
        Inl e \<Rightarrow> Inl e | Inr (v', ress) \<Rightarrow> Inr (w\<lparr>ver := v'\<rparr>))"

definition world_step :: "world \<Rightarrow> world_tx \<Rightarrow> world" where
  "world_step w t = (case world_exec w t of Inl e \<Rightarrow> w | Inr w' \<Rightarrow> w')"

definition world_run :: "world \<Rightarrow> world_tx list \<Rightarrow> world" where
  "world_run w ts = foldl world_step w ts"

section \<open>BlockchainController: the registration workflow\<close>

text \<open>
  The off-chain workflow \<open>registerUserOnBlockchain\<close> awaits a sequence of calls to the
  node and to the database. Each awaited call either returns or throws; the model takes
  the outcome of every such call as an input (\<open>Inl\<close> the message of the thrown error)
  and returns the HTTP response together with the state-changing actions performed, in
  order. Log output and the date written to \<open>blockchain.registeredAt\<close> are left out.
\<close>

record receipt =
  blockNumber :: int
  gasUsed :: "string option"

text \<open>
  One run of the interval callback of \<open>waitForTransactionWithTimeout\<close>: the lookup
  threw, there is no receipt yet, or there is a receipt and the current block number.
\<close>

datatype poll = PollError | NoReceipt | GotReceipt receipt int

text \<open>
  Real time is abstracted: the list holds the outcomes of the interval callbacks that
  complete before the timeout callback runs. The promise resolves with the first
  receipt whose confirmation count reaches \<open>confirmations\<close>; when the list is
  exhausted the timeout callback resolves it with \<open>null\<close>.
\<close>

fun waitForTransactionWithTimeout :: "int \<Rightarrow> poll list \<Rightarrow> receipt option" where
  "waitForTransactionWithTimeout confirmations [] = None"
| "waitForTransactionWithTimeout confirmations (PollError # ps) =
     waitForTransactionWithTimeout confirmations ps"
| "waitForTransactionWithTimeout confirmations (NoReceipt # ps) =
     waitForTransactionWithTimeout confirmations ps"
| "waitForTransactionWithTimeout confirmations (GotReceipt rc currentBlock # ps) =
     (let confirmationCount = currentBlock - blockNumber rc
      in if confirmationCount \<ge> confirmations then Some rc
         else waitForTransactionWithTimeout confirmations ps)"

record user =
  user_id :: string
  userType :: string
  user_walletAddress :: address
  user_name :: string
  user_email :: string

record gas_estimate =
  gasLimit :: string
  gasPrice :: string

text \<open>What the node and the database answer to the calls of one run of the workflow.\<close>

record environment =
  env_isAuthorized :: "string + bool"
  env_getInstitution :: "string + Institution"
  env_registrationGas :: "string + gas_estimate"
  env_registrationTx :: "string + string"
  env_registrationPolls :: "poll list"
  env_verificationGas :: "string + gas_estimate"
  env_verificationTx :: "string + string"
  env_verificationPolls :: "poll list"
  env_dbUpdate :: "string + unit"
  env_isNowAuthorized :: "string + bool"

record db_update =
  db_isRegistered :: bool
  db_registrationTxHash :: string
  db_verificationTxHash :: string
  db_registrationBlockNumber :: "int option"
  db_verificationBlockNumber :: "int option"
  db_verificationStatus :: string

datatype action =
    SubmitRegisterInstitution address string string string string gas_estimate
  | SubmitVerifyInstitution address gas_estimate
  | UserFindByIdAndUpdate string db_update

record tx_info =
  tx_hash :: string
  tx_blockNumber :: "int option"
  tx_gasUsed :: "string option"

text \<open>
  The responses of the workflow: an error body with its HTTP status, the body sent when
  the verification transaction is still pending, and the body sent on completion
  (both with the default status 200).
\<close>

datatype response =
    ErrorResponse nat string "string option"
  | PendingResponse (p_success: bool) (p_message: string) (p_status: string)
      (p_registration: "tx_info option") (p_verification_hash: string)
      (p_verification_status: string)
  | CompletedResponse (c_success: bool) (c_message: string) (c_isAuthorizedIssuer: bool)
      (c_registration: "tx_info option") (c_verification: tx_info) (c_note: string)
      (c_status: string)

definition failed :: "string \<Rightarrow> response" where
  "failed msg = ErrorResponse 500 ''Failed to register on blockchain'' (Some msg)"

text \<open>\<open>registrationTx?.hash || 'Already registered'\<close>: an empty hash is falsy too.\<close>

definition hash_or_already :: "string option \<Rightarrow> string" where
  "hash_or_already h = (case h of None \<Rightarrow> ''Already registered''
     | Some x \<Rightarrow> if x = [] then ''Already registered'' else x)"

definition registration_info :: "string option \<Rightarrow> receipt option \<Rightarrow> tx_info option" where
  "registration_info registrationTx registrationReceipt =
     (case registrationTx of None \<Rightarrow> None
      | Some h \<Rightarrow> Some \<lparr> tx_hash = h,
                         tx_blockNumber = map_option blockNumber registrationReceipt,
                         tx_gasUsed = Option.bind registrationReceipt gasUsed \<rparr>)"

text \<open>
  Step 2 of the workflow, from the gas estimate of \<open>verifyInstitution\<close> on.
  \<open>acts\<close> are the actions of step 1, \<open>registrationTx\<close> and \<open>registrationReceipt\<close>
  its transaction hash and receipt when step 1 ran.
\<close>

definition verification_step ::
  "user \<Rightarrow> environment \<Rightarrow> bool \<Rightarrow> action list \<Rightarrow> string option \<Rightarrow> receipt option
     \<Rightarrow> response \<times> action list" where
  "verification_step u env isRegistered acts registrationTx registrationReceipt =
     (case env_verificationGas env of
        Inl e \<Rightarrow> (failed e, acts)
      | Inr verificationGasEstimate \<Rightarrow>
     (case env_verificationTx env of
        Inl e \<Rightarrow> (failed e, acts)
      | Inr verificationTxHash \<Rightarrow>
     (let acts1 = acts @ [SubmitVerifyInstitution (user_walletAddress u) verificationGasEstimate]
      in case waitForTransactionWithTimeout 2 (env_verificationPolls env) of
        None \<Rightarrow>
          (let upd = \<lparr> db_isRegistered = True,
                       db_registrationTxHash = hash_or_already registrationTx,
                       db_verificationTxHash = verificationTxHash,
                       db_registrationBlockNumber = map_option blockNumber registrationReceipt,
                       db_verificationBlockNumber = None,
                       db_verificationStatus = ''pending'' \<rparr>
           in case env_dbUpdate env of
                Inl e \<Rightarrow> (failed e, acts1)
              | Inr _ \<Rightarrow>
                  (PendingResponse True
                     ''Registration completed and verification transaction submitted''
                     ''verification_pending''
                     (registration_info registrationTx registrationReceipt)
                     verificationTxHash ''pending'',
                   acts1 @ [UserFindByIdAndUpdate (user_id u) upd]))
      | Some verificationReceipt \<Rightarrow>
          (let upd = \<lparr> db_isRegistered = True,
                       db_registrationTxHash = hash_or_already registrationTx,
                       db_verificationTxHash = verificationTxHash,
                       db_registrationBlockNumber = map_option blockNumber registrationReceipt,
                       db_verificationBlockNumber = Some (blockNumber verificationReceipt),
                       db_verificationStatus = ''confirmed'' \<rparr>
           in case env_dbUpdate env of
                Inl e \<Rightarrow> (failed e, acts1)
              | Inr _ \<Rightarrow>
                  (let acts2 = acts1 @ [UserFindByIdAndUpdate (user_id u) upd]
                   in case env_isNowAuthorized env of
                        Inl e \<Rightarrow> (failed e, acts2)
                      | Inr isNowAuthorized \<Rightarrow>
                          (CompletedResponse True
                             ''Successfully registered and verified on blockchain''
                             isNowAuthorized
                             (registration_info registrationTx registrationReceipt)
                             \<lparr> tx_hash = verificationTxHash,
                               tx_blockNumber = Some (blockNumber verificationReceipt),
                               tx_gasUsed = gasUsed verificationReceipt \<rparr>
                             (if isRegistered
                              then ''Institution was already registered, only verification was needed''
                              else ''Institution was registered and verified'')
                             (if isNowAuthorized then ''fully_verified''
                              else ''verification_pending''),
                           acts2))))))"

text \<open>
  The flag \<open>isRegistered\<close> of the workflow: \<open>getInstitution\<close> returned a record
  with a name that is not empty. A throw of \<open>getInstitution\<close> is caught locally and
  means "not registered".
\<close>

definition isRegistered :: "environment \<Rightarrow> bool" where
  "isRegistered env = (case env_getInstitution env of
                         Inl e \<Rightarrow> False
                       | Inr institutionData \<Rightarrow> name institutionData \<noteq> [])"

text \<open>
  \<open>registerUserOnBlockchain\<close>; \<open>org_website\<close> is \<open>organizationDetails?.website\<close> of
  the request body. Every throw other than that of \<open>getInstitution\<close> reaches the
  outer \<open>catch\<close> and is answered by 500.
\<close>

definition registerUserOnBlockchain ::
  "user \<Rightarrow> string option \<Rightarrow> environment \<Rightarrow> response \<times> action list" where
  "registerUserOnBlockchain u org_website env =
     (if userType u \<notin> set [''institution'', ''company'', ''verifier'']
      then (ErrorResponse 400
              ''Only institutions, employers, and verifiers can register on blockchain'' None, [])
      else case env_isAuthorized env of
        Inl e \<Rightarrow> (failed e, [])
      | Inr isAuthorized \<Rightarrow>
          if isAuthorized
          then (ErrorResponse 400 ''User is already registered and verified on blockchain'' None, [])
          else
            if \<not> isRegistered env
               then
                 (let orgName = user_name u;
                      orgWebsite = (case org_website of None \<Rightarrow> []
                                    | Some x \<Rightarrow> x);
                      documentHash = []
                  in case env_registrationGas env of
                       Inl e \<Rightarrow> (failed e, [])
                     | Inr registrationGasEstimate \<Rightarrow>
                    (case env_registrationTx env of
                       Inl e \<Rightarrow> (failed e, [])
                     | Inr registrationTxHash \<Rightarrow>
                    (let acts = [SubmitRegisterInstitution (user_walletAddress u) orgName
                                   orgWebsite (user_email u) documentHash registrationGasEstimate]
                     in case waitForTransactionWithTimeout 2 (env_registrationPolls env) of
                          None \<Rightarrow>
                            (failed ''Registration transaction timed out - please check transaction status manually'',
                             acts)
                        | Some registrationReceipt \<Rightarrow>
                            verification_step u env (isRegistered env) acts
                              (Some registrationTxHash) (Some registrationReceipt))))
               else verification_step u env (isRegistered env) [] None None)"



section \<open>Example states\<close>

text \<open>
  A deployed system in which the deployer 1 has registered and verified institution 2,
  and 2 has issued credential 0 (a degree expiring at time 200) to recipient 5.
\<close>

abbreviation example_world :: world where
  "example_world \<equiv> world_run
     \<lparr> reg = registry_constructor 1, nft = ledger_constructor 10 1, ver = verification_constructor \<rparr>
     [(1, 100, RegistryCall (RegisterInstitution 2 ''MIT'' ''mit.edu'' ''a@mit.edu'' ''Qm'')),
      (1, 101, RegistryCall (VerifyInstitution 2)),
      (2, 102, IssueCredential 5 ''Degree'' ''MIT'' 200 ''QmC'' ''uri'')]"

text \<open>Institution 2 issues a second credential, without expiry, to recipient 6.\<close>

abbreviation example_issue :: "error + (registry \<times> ledger \<times> uint256)" where
  "example_issue \<equiv> issueCredential (reg example_world) (nft example_world) 2 300 6
     ''Certificate'' ''MIT'' 0 ''QmD'' ''uri2''"

text \<open>
  Institution 2 issues, at time 300, a credential whose expiry 299 has already passed.
\<close>

abbreviation example_issue_expired :: "error + (registry \<times> ledger \<times> uint256)" where
  "example_issue_expired \<equiv> issueCredential (reg example_world) (nft example_world) 2 300 6
     ''Certificate'' ''MIT'' 299 ''QmD'' ''uri2''"

text \<open>
  An institution user, and answers of the node for a run of the workflow in which
  the caller is unknown to the registry, both transactions are accepted and both reach
  two confirmations within the polls.
\<close>

abbreviation example_user :: user where
  "example_user \<equiv> \<lparr> user_id = ''u1'', userType = ''institution'', user_walletAddress = 2,
     user_name = ''MIT'', user_email = ''a@mit.edu'' \<rparr>"

abbreviation example_env :: environment where
  "example_env \<equiv> \<lparr> env_isAuthorized = Inr False,
     env_getInstitution = Inr empty_institution,
     env_registrationGas = Inr \<lparr> gasLimit = ''100000'', gasPrice = ''1'' \<rparr>,
     env_registrationTx = Inr ''0xaa'',
     env_registrationPolls = [NoReceipt, GotReceipt \<lparr> blockNumber = 7, gasUsed = None \<rparr> 8,
        GotReceipt \<lparr> blockNumber = 7, gasUsed = None \<rparr> 9],
     env_verificationGas = Inr \<lparr> gasLimit = ''60000'', gasPrice = ''1'' \<rparr>,
     env_verificationTx = Inr ''0xbb'',
     env_verificationPolls = [PollError, GotReceipt \<lparr> blockNumber = 10, gasUsed = None \<rparr> 12],
     env_dbUpdate = Inr (),
     env_isNowAuthorized = Inr True \<rparr>"

section \<open>Properties of the registry\<close>

lemmas registry_defs = registerInstitution_def verifyInstitution_def revokeInstitution_def
  updateInstitutionInfo_def updateInstitutionDocuments_def addAdmin_def removeAdmin_def
  incrementCredentialCount_def

lemma authorized_step:
  "authorizedIssuers (registry_step s t) a =
     (if snd (snd t) = VerifyInstitution a \<and> succeeds s t then True
      else if snd (snd t) = RevokeInstitution a \<and> succeeds s t then False
      else authorizedIssuers s a)"
proof -
  obtain sender now c where t: "t = (sender, now, c)" by (cases t) auto
  show ?thesis
    unfolding t by (cases c) (auto simp: registry_step_def succeeds_def registry_defs
        split: sum.splits if_splits)
qed

lemma registry_run_snoc: "registry_run s (ts @ [t]) = registry_step (registry_run s ts) t"
  by (simp add: registry_run_def)

lemma verify_at_snoc:
  "verify_succeeded_at s (ts @ [t]) i a =
     (verify_succeeded_at s ts i a
      \<or> (i = length ts \<and> snd (snd t) = VerifyInstitution a \<and> succeeds (registry_run s ts) t))"
  by (auto simp: verify_succeeded_at_def nth_append less_Suc_eq)

lemma revoke_at_snoc:
  "revoke_succeeded_at s (ts @ [t]) i a =
     (revoke_succeeded_at s ts i a
      \<or> (i = length ts \<and> snd (snd t) = RevokeInstitution a \<and> succeeds (registry_run s ts) t))"
  by (auto simp: revoke_succeeded_at_def nth_append less_Suc_eq)

lemma at_bound: "verify_succeeded_at s ts i a \<Longrightarrow> i < length ts"
  "revoke_succeeded_at s ts i a \<Longrightarrow> i < length ts"
  by (auto simp: verify_succeeded_at_def revoke_succeeded_at_def)

lemma authorized_history:
  assumes "\<not> authorizedIssuers s a"
  shows "authorizedIssuers (registry_run s ts) a \<longleftrightarrow>
     (\<exists>i. verify_succeeded_at s ts i a \<and> (\<forall>j. i < j \<longrightarrow> \<not> revoke_succeeded_at s ts j a))"
proof (induction ts rule: rev_induct)
  case Nil
  then show ?case using assms by (simp add: registry_run_def verify_succeeded_at_def)
next
  case (snoc t ts)
  let ?s = "registry_run s ts"
  consider (v) "snd (snd t) = VerifyInstitution a \<and> succeeds ?s t"
    | (r) "snd (snd t) = RevokeInstitution a \<and> succeeds ?s t"
    | (o) "\<not> (snd (snd t) = VerifyInstitution a \<and> succeeds ?s t)"
          "\<not> (snd (snd t) = RevokeInstitution a \<and> succeeds ?s t)"
    by blast
  then show ?case
  proof cases
    case v
    have "verify_succeeded_at s (ts @ [t]) (length ts) a"
      using v by (simp add: verify_at_snoc)
    moreover have "\<forall>j. length ts < j \<longrightarrow> \<not> revoke_succeeded_at s (ts @ [t]) j a"
      by (auto simp: revoke_succeeded_at_def)
    ultimately show ?thesis using v by (auto simp: registry_run_snoc authorized_step)
  next
    case r
    have lhs: "\<not> authorizedIssuers (registry_run s (ts @ [t])) a"
      using r by (auto simp: registry_run_snoc authorized_step)
    have rv: "revoke_succeeded_at s (ts @ [t]) (length ts) a"
      using r by (simp add: revoke_at_snoc)
    have "\<not> (\<exists>i. verify_succeeded_at s (ts @ [t]) i a
             \<and> (\<forall>j. i < j \<longrightarrow> \<not> revoke_succeeded_at s (ts @ [t]) j a))"
    proof
      assume "\<exists>i. verify_succeeded_at s (ts @ [t]) i a
             \<and> (\<forall>j. i < j \<longrightarrow> \<not> revoke_succeeded_at s (ts @ [t]) j a)"
      then obtain i where i: "verify_succeeded_at s (ts @ [t]) i a"
        and n: "\<forall>j. i < j \<longrightarrow> \<not> revoke_succeeded_at s (ts @ [t]) j a" by blast
      from i r have "verify_succeeded_at s ts i a" by (auto simp: verify_at_snoc)
      then have "i < length ts" by (rule at_bound)
      with n rv show False by blast
    qed
    with lhs show ?thesis by blast
  next
    case o
    have "authorizedIssuers (registry_run s (ts @ [t])) a = authorizedIssuers ?s a"
      using o by (auto simp: registry_run_snoc authorized_step)
    moreover have "\<And>i. verify_succeeded_at s (ts @ [t]) i a = verify_succeeded_at s ts i a"
      using o by (auto simp: verify_at_snoc)
    moreover have "\<And>j. revoke_succeeded_at s (ts @ [t]) j a = revoke_succeeded_at s ts j a"
      using o by (auto simp: revoke_at_snoc)
    ultimately show ?thesis using snoc.IH by simp
  qed
qed


text \<open>
  Claim C5. In every state reached from the deployment of the registry by any sequence
  of registry transactions (each by any sender, reverted ones included),
  \<open>isAuthorizedIssuer a\<close> holds exactly when some transaction of the sequence was a
  \<open>verifyInstitution a\<close> that succeeded and no later transaction was a
  \<open>revokeInstitution a\<close> that succeeded.
\<close>

theorem authorized_iff_verified_and_not_revoked_since:
  "isAuthorizedIssuer (registry_run (registry_constructor deployer) ts) a \<longleftrightarrow>
     (\<exists>i. verify_succeeded_at (registry_constructor deployer) ts i a
        \<and> (\<forall>j. i < j \<longrightarrow> \<not> revoke_succeeded_at (registry_constructor deployer) ts j a))"
  unfolding isAuthorizedIssuer_def
  by (rule authorized_history) (simp add: registry_constructor_def)

lemmas registry_eval = registry_run_def registry_step_def registry_constructor_def
  registry_defs onlyAdmin_def onlyOwner_def isAuthorizedIssuer_def checked_inc_def isAdmin_def
  empty_institution_def

theorem authorized_iff_verified_and_not_revoked_since_witness:
  "isAuthorizedIssuer (registry_run (registry_constructor 1)
       [(1, 100, RegisterInstitution 2 ''MIT'' ''mit.edu'' ''a@mit.edu'' ''Qm''),
        (1, 101, VerifyInstitution 2),
        (1, 102, RevokeInstitution 2),
        (1, 103, VerifyInstitution 2)]) 2
   \<and> (\<exists>i. verify_succeeded_at (registry_constructor 1)
       [(1, 100, RegisterInstitution 2 ''MIT'' ''mit.edu'' ''a@mit.edu'' ''Qm''),
        (1, 101, VerifyInstitution 2),
        (1, 102, RevokeInstitution 2),
        (1, 103, VerifyInstitution 2)] i 2
        \<and> (\<forall>j. i < j \<longrightarrow> \<not> revoke_succeeded_at (registry_constructor 1)
       [(1, 100, RegisterInstitution 2 ''MIT'' ''mit.edu'' ''a@mit.edu'' ''Qm''),
        (1, 101, VerifyInstitution 2),
        (1, 102, RevokeInstitution 2),
        (1, 103, VerifyInstitution 2)] j 2))"
proof -
  have "isAuthorizedIssuer (registry_run (registry_constructor 1)
       [(1, 100, RegisterInstitution 2 ''MIT'' ''mit.edu'' ''a@mit.edu'' ''Qm''),
        (1, 101, VerifyInstitution 2),
        (1, 102, RevokeInstitution 2),
        (1, 103, VerifyInstitution 2)]) 2"
    by (simp add: registry_eval)
  then show ?thesis
    using authorized_iff_verified_and_not_revoked_since [of 1 _ 2] by blast
qed


text \<open>
  Claim C8 says that every call of \<open>incrementCredentialCount\<close> from a caller that is
  not an authorized issuer fails. The function does not look at its caller: with
  institution 2 authorized, the call by address 3, which is not authorized, succeeds
  and raises the counter of 2 from 0 to 1.
\<close>

theorem incrementCredentialCount_unauthorized_caller_counterexample:
  "\<not> isAuthorizedIssuer (registry_run (registry_constructor 1)
        [(1, 100, RegisterInstitution 2 ''MIT'' ''mit.edu'' ''a@mit.edu'' ''Qm''),
         (1, 101, VerifyInstitution 2)]) 3
   \<and> \<not> isl (incrementCredentialCount (registry_run (registry_constructor 1)
        [(1, 100, RegisterInstitution 2 ''MIT'' ''mit.edu'' ''a@mit.edu'' ''Qm''),
         (1, 101, VerifyInstitution 2)]) 3 2)
   \<and> credentialsIssued (institutions (registry_run (registry_constructor 1)
        [(1, 100, RegisterInstitution 2 ''MIT'' ''mit.edu'' ''a@mit.edu'' ''Qm''),
         (1, 101, VerifyInstitution 2)]) 2) = 0
   \<and> credentialsIssued (institutions (projr (incrementCredentialCount
        (registry_run (registry_constructor 1)
        [(1, 100, RegisterInstitution 2 ''MIT'' ''mit.edu'' ''a@mit.edu'' ''Qm''),
         (1, 101, VerifyInstitution 2)]) 3 2)) 2) = 1"
  by (simp add: registry_eval)

text \<open>
  Claim C8, amended. \<open>incrementCredentialCount issuer\<close> is decided by its argument,
  whoever the caller is: when \<open>issuer\<close> is not an authorized issuer the call fails with
  "Not authorized issuer" and the state, the counter with it, is unchanged; when
  \<open>issuer\<close> is authorized the call succeeds and adds one to the counter of \<open>issuer\<close>
  only, unless the counter is at its maximum, where the checked increment panics.
\<close>

theorem incrementCredentialCount_checks_argument:
  "(\<not> isAuthorizedIssuer s a \<longrightarrow>
       incrementCredentialCount s sender a = Inl (Revert ''Not authorized issuer'')
       \<and> registry_step s (sender, now, IncrementCredentialCount a) = s)
   \<and> (isAuthorizedIssuer s a \<and> credentialsIssued (institutions s a) + 1 \<noteq> 0 \<longrightarrow>
       incrementCredentialCount s sender a =
         Inr (s\<lparr>institutions := (institutions s)(a := (institutions s a)
                \<lparr>credentialsIssued := credentialsIssued (institutions s a) + 1\<rparr>)\<rparr>))
   \<and> (isAuthorizedIssuer s a \<and> credentialsIssued (institutions s a) + 1 = 0 \<longrightarrow>
       incrementCredentialCount s sender a = Inl Panic)"
  by (simp add: incrementCredentialCount_def isAuthorizedIssuer_def checked_inc_def
      registry_step_def)


theorem incrementCredentialCount_checks_argument_witness:
  "\<not> isAuthorizedIssuer (registry_constructor 1) 3
   \<and> incrementCredentialCount (registry_constructor 1) 3 3 = Inl (Revert ''Not authorized issuer'')
   \<and> isAuthorizedIssuer (registry_run (registry_constructor 1)
        [(1, 100, RegisterInstitution 2 ''MIT'' ''mit.edu'' ''a@mit.edu'' ''Qm''),
         (1, 101, VerifyInstitution 2)]) 2
   \<and> \<not> isl (incrementCredentialCount (registry_run (registry_constructor 1)
        [(1, 100, RegisterInstitution 2 ''MIT'' ''mit.edu'' ''a@mit.edu'' ''Qm''),
         (1, 101, VerifyInstitution 2)]) 3 2)
   \<and> isAuthorizedIssuer ((registry_constructor 1)\<lparr>
          institutions := (\<lambda>_. empty_institution)(2 := empty_institution\<lparr>credentialsIssued := - 1\<rparr>),
          authorizedIssuers := (\<lambda>_. False)(2 := True)\<rparr>) 2
   \<and> incrementCredentialCount ((registry_constructor 1)\<lparr>
          institutions := (\<lambda>_. empty_institution)(2 := empty_institution\<lparr>credentialsIssued := - 1\<rparr>),
          authorizedIssuers := (\<lambda>_. False)(2 := True)\<rparr>) 3 2 = Inl Panic"
proof -
  have a: "\<not> isAuthorizedIssuer (registry_constructor 1) 3"
    by (simp add: registry_eval)
  have b: "isAuthorizedIssuer (registry_run (registry_constructor 1)
        [(1, 100, RegisterInstitution 2 ''MIT'' ''mit.edu'' ''a@mit.edu'' ''Qm''),
         (1, 101, VerifyInstitution 2)]) 2
     \<and> credentialsIssued (institutions (registry_run (registry_constructor 1)
        [(1, 100, RegisterInstitution 2 ''MIT'' ''mit.edu'' ''a@mit.edu'' ''Qm''),
         (1, 101, VerifyInstitution 2)]) 2) + 1 \<noteq> 0"
    by (simp add: registry_eval)
  have c: "isAuthorizedIssuer ((registry_constructor 1)\<lparr>
          institutions := (\<lambda>_. empty_institution)(2 := empty_institution\<lparr>credentialsIssued := - 1\<rparr>),
          authorizedIssuers := (\<lambda>_. False)(2 := True)\<rparr>) 2
     \<and> credentialsIssued (institutions ((registry_constructor 1)\<lparr>
          institutions := (\<lambda>_. empty_institution)(2 := empty_institution\<lparr>credentialsIssued := - 1\<rparr>),
          authorizedIssuers := (\<lambda>_. False)(2 := True)\<rparr>) 2) + 1 = 0"
    by (simp add: registry_eval)
  show ?thesis
    using a b c
      incrementCredentialCount_checks_argument [of "registry_constructor 1" 3 3 0]
      incrementCredentialCount_checks_argument [of "registry_run (registry_constructor 1)
        [(1, 100, RegisterInstitution 2 ''MIT'' ''mit.edu'' ''a@mit.edu'' ''Qm''),
         (1, 101, VerifyInstitution 2)]" 2 3 0]
      incrementCredentialCount_checks_argument [of "(registry_constructor 1)\<lparr>
          institutions := (\<lambda>_. empty_institution)(2 := empty_institution\<lparr>credentialsIssued := - 1\<rparr>),
          authorizedIssuers := (\<lambda>_. False)(2 := True)\<rparr>" 2 3 0]
    by simp
qed

lemma zero_unregistered_step:
  "name (institutions s 0) = [] \<Longrightarrow> name (institutions (registry_step s t) 0) = []"
proof -
  assume z: "name (institutions s 0) = []"
  obtain sender now c where t: "t = (sender, now, c)" by (cases t) auto
  show ?thesis
    unfolding t using z by (cases c) (auto simp: registry_step_def registry_defs checked_inc_def
        split: sum.splits if_splits)
qed

lemma zero_unregistered_run:
  "name (institutions s 0) = [] \<Longrightarrow> name (institutions (registry_run s ts) 0) = []"
  unfolding registry_run_def
  by (induction ts arbitrary: s) (simp_all add: zero_unregistered_step)

lemma zero_unregistered_reachable:
  "name (institutions (registry_run (registry_constructor d) ts) 0) = []"
  by (rule zero_unregistered_run) (simp add: registry_constructor_def empty_institution_def)

text \<open>
  Claim C10. In a state reached from the deployment, let \<open>a\<close> be a registered
  institution (verified or not). After an admin calls \<open>updateInstitutionInfo\<close> on \<open>a\<close>
  with the empty name, a following \<open>registerInstitution\<close> on \<open>a\<close> by an admin, with a
  name that is not empty, succeeds: the record of \<open>a\<close> is overwritten, with
  \<open>credentialsIssued\<close> 0 and \<open>verified\<close> false, while \<open>authorizedIssuers\<close> and the
  issuer list are as before.
\<close>

theorem reregister_after_name_cleared:
  assumes s: "s = registry_run (registry_constructor deployer) ts"
    and registered: "name (institutions s a) \<noteq> []"
    and admin1: "isAdmin s admin1"
    and admin2: "isAdmin s admin2"
    and nm: "nm \<noteq> []"
  shows "\<exists>s1 s2. updateInstitutionInfo s admin1 a [] web mail = Inr s1
      \<and> registerInstitution s1 admin2 now a nm web' mail' doc = Inr s2
      \<and> institutions s2 a = \<lparr> name = nm, website = web', email = mail', walletAddress = a,
            verified = False, registrationDate = now, credentialsIssued = 0,
            documentHash = doc \<rparr>
      \<and> authorizedIssuers s2 = authorizedIssuers s
      \<and> issuerList s2 = issuerList s"
proof -
  have "a \<noteq> 0"
    using registered zero_unregistered_reachable [of deployer ts] s by auto
  then show ?thesis
    using registered admin1 admin2 nm
    by (simp add: updateInstitutionInfo_def registerInstitution_def isAdmin_def onlyAdmin_def)
qed

theorem reregister_after_name_cleared_witness:
  "name (institutions (registry_run (registry_constructor 1)
        [(1, 100, RegisterInstitution 2 ''MIT'' ''mit.edu'' ''a@mit.edu'' ''Qm''),
         (1, 101, VerifyInstitution 2),
         (2, 102, IncrementCredentialCount 2)]) 2) \<noteq> []
   \<and> isAdmin (registry_run (registry_constructor 1)
        [(1, 100, RegisterInstitution 2 ''MIT'' ''mit.edu'' ''a@mit.edu'' ''Qm''),
         (1, 101, VerifyInstitution 2),
         (2, 102, IncrementCredentialCount 2)]) 1
   \<and> ''Evil'' \<noteq> []
   \<and> verified (institutions (registry_run (registry_constructor 1)
        [(1, 100, RegisterInstitution 2 ''MIT'' ''mit.edu'' ''a@mit.edu'' ''Qm''),
         (1, 101, VerifyInstitution 2),
         (2, 102, IncrementCredentialCount 2)]) 2)
   \<and> credentialsIssued (institutions (registry_run (registry_constructor 1)
        [(1, 100, RegisterInstitution 2 ''MIT'' ''mit.edu'' ''a@mit.edu'' ''Qm''),
         (1, 101, VerifyInstitution 2),
         (2, 102, IncrementCredentialCount 2)]) 2) = 1
   \<and> (\<exists>s1 s2. updateInstitutionInfo (registry_run (registry_constructor 1)
        [(1, 100, RegisterInstitution 2 ''MIT'' ''mit.edu'' ''a@mit.edu'' ''Qm''),
         (1, 101, VerifyInstitution 2),
         (2, 102, IncrementCredentialCount 2)]) 1 2 [] ''w'' ''m'' = Inr s1
      \<and> registerInstitution s1 1 200 2 ''Evil'' ''e.org'' ''e@e.org'' ''Qx'' = Inr s2
      \<and> institutions s2 2 = \<lparr> name = ''Evil'', website = ''e.org'', email = ''e@e.org'',
            walletAddress = 2, verified = False, registrationDate = 200,
            credentialsIssued = 0, documentHash = ''Qx'' \<rparr>
      \<and> authorizedIssuers s2 = authorizedIssuers (registry_run (registry_constructor 1)
        [(1, 100, RegisterInstitution 2 ''MIT'' ''mit.edu'' ''a@mit.edu'' ''Qm''),
         (1, 101, VerifyInstitution 2),
         (2, 102, IncrementCredentialCount 2)])
      \<and> issuerList s2 = issuerList (registry_run (registry_constructor 1)
        [(1, 100, RegisterInstitution 2 ''MIT'' ''mit.edu'' ''a@mit.edu'' ''Qm''),
         (1, 101, VerifyInstitution 2),
         (2, 102, IncrementCredentialCount 2)]))"
proof -
  have h: "name (institutions (registry_run (registry_constructor 1)
        [(1, 100, RegisterInstitution 2 ''MIT'' ''mit.edu'' ''a@mit.edu'' ''Qm''),
         (1, 101, VerifyInstitution 2),
         (2, 102, IncrementCredentialCount 2)]) 2) \<noteq> []
   \<and> isAdmin (registry_run (registry_constructor 1)
        [(1, 100, RegisterInstitution 2 ''MIT'' ''mit.edu'' ''a@mit.edu'' ''Qm''),
         (1, 101, VerifyInstitution 2),
         (2, 102, IncrementCredentialCount 2)]) 1
   \<and> verified (institutions (registry_run (registry_constructor 1)
        [(1, 100, RegisterInstitution 2 ''MIT'' ''mit.edu'' ''a@mit.edu'' ''Qm''),
         (1, 101, VerifyInstitution 2),
         (2, 102, IncrementCredentialCount 2)]) 2)
   \<and> credentialsIssued (institutions (registry_run (registry_constructor 1)
        [(1, 100, RegisterInstitution 2 ''MIT'' ''mit.edu'' ''a@mit.edu'' ''Qm''),
         (1, 101, VerifyInstitution 2),
         (2, 102, IncrementCredentialCount 2)]) 2) = 1"
    by (simp add: registry_eval)
  have n: "''Evil'' \<noteq> []" by simp
  show ?thesis
    using h n reregister_after_name_cleared [OF refl, of 1
        "[(1, 100, RegisterInstitution 2 ''MIT'' ''mit.edu'' ''a@mit.edu'' ''Qm''),
         (1, 101, VerifyInstitution 2),
         (2, 102, IncrementCredentialCount 2)]" 2 1 1 "''Evil''" "''w''" "''m''" 200
        "''e.org''" "''e@e.org''" "''Qx''"]
    by blast
qed


section \<open>Properties of the credential contract\<close>

lemmas ledger_defs = issueCredential_def mint_def setTokenURI_def exists_token_def
  revokeCredential_def verifyCredential_def transferFrom_def approve_def setApprovalForAll_def
  ownerOf_def isApprovedOrOwner_def batchIssueCredentials_def ledger_constructor_def
  empty_credential_def

lemmas world_eval = world_run_def world_step_def verification_constructor_def
  verifyCredentialDetailed_def

text \<open>
  Claim C6. For every minted credential, \<open>verifyCredential\<close> returns
  \<open>expired = (expiry \<noteq> 0 \<and> now > expiry)\<close>, the comparison being strict: with expiry 0
  the credential is never expired, whatever the time; with expiry equal to the current
  timestamp it is not expired; with an expiry (other than the sentinel 0) before the
  current timestamp it is expired. The returned \<open>isValid\<close> is "not revoked and not
  expired".
\<close>

theorem verifyCredential_expiry_is_strict:
  assumes "exists_token l tokenId"
  shows "\<exists>isValid iss rcp ctype iname idate expired rvk.
      verifyCredential l now tokenId = Inr (isValid, iss, rcp, ctype, iname, idate, expired, rvk)
      \<and> expired = (expiryDate (credentials l tokenId) \<noteq> 0
                    \<and> now > expiryDate (credentials l tokenId))
      \<and> (expiryDate (credentials l tokenId) = 0 \<longrightarrow> \<not> expired)
      \<and> (expiryDate (credentials l tokenId) = now \<longrightarrow> \<not> expired)
      \<and> (expiryDate (credentials l tokenId) \<noteq> 0 \<and> expiryDate (credentials l tokenId) < now
            \<longrightarrow> expired)
      \<and> isValid = (\<not> revoked (credentials l tokenId) \<and> \<not> expired)"
  using assms by (simp add: verifyCredential_def Let_def)

lemma issueCredential_keeps:
  assumes "issueCredential r l sender now rcp ctype iname expiry ipfs uri = Inr (r', l', tokenId)"
    and "exists_token l k"
  shows "exists_token l' k \<and> credentials l' k = credentials l k"
  using assms
  by (auto simp: issueCredential_def mint_def setTokenURI_def exists_token_def Let_def
      split: if_splits sum.splits)



lemma batch_issue_loop_keeps:
  "batch_issue_loop i sender now rcps ctypes iname expiry ipfss uris r l = Inr (r', l')
     \<Longrightarrow> exists_token l k \<Longrightarrow> exists_token l' k \<and> credentials l' k = credentials l k"
proof (induction i sender now rcps ctypes iname expiry ipfss uris r l
    rule: batch_issue_loop.induct)
  case (1 i sender now rcps ctypes iname expiry ipfss uris r l)
  show ?case
  proof (cases "i < length rcps")
    case False
    with "1.prems" show ?thesis by (simp add: batch_issue_loop.simps [of i])
  next
    case True
    from "1.prems"(1) True obtain r1 l1 tid where
      step: "issueCredential r l sender now (rcps ! i) (ctypes ! i) iname expiry (ipfss ! i)
               (uris ! i) = Inr (r1, l1, tid)"
      and rest: "batch_issue_loop (i + 1) sender now rcps ctypes iname expiry ipfss uris r1 l1
               = Inr (r', l')"
      by (simp add: batch_issue_loop.simps [of i] split: sum.splits prod.splits)
    have k1: "exists_token l1 k \<and> credentials l1 k = credentials l k"
      using issueCredential_keeps [OF step "1.prems"(2)] .
    have "exists_token l' k \<and> credentials l' k = credentials l1 k"
      using "1.IH" [OF True step refl refl rest] k1 by simp
    with k1 show ?thesis by simp
  qed
qed


lemma world_exec_keeps_revoked:
  assumes "world_exec w t = Inr w'"
    and "exists_token (nft w) k" and "revoked (credentials (nft w) k)"
  shows "exists_token (nft w') k \<and> revoked (credentials (nft w') k)"
proof -
  obtain sender now c where t: "t = (sender, now, c)" by (cases t) auto
  show ?thesis
  proof (cases c)
    case (IssueCredential rcp ctype iname expiry ipfs uri)
    then show ?thesis
      using assms t issueCredential_keeps [of "reg w" "nft w" sender now rcp ctype iname expiry ipfs uri]
      by (auto split: sum.splits)
  next
    case (BatchIssueCredentials rcps ctypes iname expiry ipfss uris)
    then show ?thesis
      using assms t
        batch_issue_loop_keeps [of 0 sender now rcps ctypes iname expiry ipfss uris "reg w" "nft w"]
      by (auto simp: batchIssueCredentials_def split: sum.splits if_splits)
  next
    case (RevokeCredential tokenId)
    then show ?thesis
      using assms t
      by (auto simp: revokeCredential_def exists_token_def split: sum.splits if_splits)
  next
    case (Approve to tokenId)
    then show ?thesis
      using assms t
      by (auto simp: approve_def ownerOf_def exists_token_def split: sum.splits if_splits)
  next
    case (SetApprovalForAll operator approved)
    then show ?thesis
      using assms t
      by (auto simp: setApprovalForAll_def exists_token_def split: sum.splits if_splits)
  next
    case (TransferFrom src dst tokenId)
    then show ?thesis
      using assms t
      by (auto simp: transferFrom_def isApprovedOrOwner_def ownerOf_def exists_token_def
          split: sum.splits if_splits)
  qed (insert assms t, auto split: sum.splits)
qed

lemma world_run_keeps_revoked:
  "exists_token (nft w) k \<Longrightarrow> revoked (credentials (nft w) k)
     \<Longrightarrow> exists_token (nft (world_run w ts)) k \<and> revoked (credentials (nft (world_run w ts)) k)"
proof (induction ts arbitrary: w)
  case Nil
  then show ?case by (simp add: world_run_def)
next
  case (Cons t ts)
  have "exists_token (nft (world_step w t)) k \<and> revoked (credentials (nft (world_step w t)) k)"
  proof (cases "world_exec w t")
    case (Inl e)
    then show ?thesis using Cons.prems by (simp add: world_step_def)
  next
    case (Inr w')
    then show ?thesis
      using world_exec_keeps_revoked [OF Inr Cons.prems] by (simp add: world_step_def)
  qed
  then show ?case
    using Cons.IH [of "world_step w t"] by (simp add: world_run_def)
qed

lemma transferFrom_keeps_credentials:
  "transferFrom l s src dst k = Inr l'
     \<Longrightarrow> credentials l' = credentials l \<and> exists_token l' t = exists_token l t"
  by (auto simp: transferFrom_def isApprovedOrOwner_def ownerOf_def exists_token_def
      split: sum.splits if_splits)

text \<open>
  Claim C7. \<open>revokeCredential\<close> fails exactly when the token was never minted
  ("Credential does not exist"), or the caller is not the issuer recorded at mint time
  ("Only issuer can revoke"), or the credential is already revoked ("Already revoked"),
  tested in this order. A failed call leaves the whole state unchanged. A successful
  call sets \<open>revoked\<close> of the token and nothing else, and no sequence of transactions
  to the system, by any senders, sets it back. A transfer of ownership changes neither
  the issuer of record nor the outcome of \<open>revokeCredential\<close> for any caller.
\<close>

theorem revokeCredential_failures_and_irreversible:
  "(\<not> exists_token l t \<longrightarrow>
       revokeCredential l sender t = Inl (Revert ''Credential does not exist''))
   \<and> (exists_token l t \<and> issuer (credentials l t) \<noteq> sender \<longrightarrow>
       revokeCredential l sender t = Inl (Revert ''Only issuer can revoke''))
   \<and> (exists_token l t \<and> issuer (credentials l t) = sender \<and> revoked (credentials l t) \<longrightarrow>
       revokeCredential l sender t = Inl (Revert ''Already revoked''))
   \<and> (isl (revokeCredential l sender t) \<longleftrightarrow>
       (\<not> exists_token l t \<or> issuer (credentials l t) \<noteq> sender \<or> revoked (credentials l t)))
   \<and> (isl (revokeCredential l sender t) \<longrightarrow>
       (\<forall>r v now. world_step \<lparr> reg = r, nft = l, ver = v \<rparr> (sender, now, RevokeCredential t)
          = \<lparr> reg = r, nft = l, ver = v \<rparr>))
   \<and> (\<forall>l'. revokeCredential l sender t = Inr l' \<longrightarrow>
         l' = l\<lparr>credentials := (credentials l)(t := (credentials l t)\<lparr>revoked := True\<rparr>)\<rparr>
         \<and> revoked (credentials l' t)
         \<and> (\<forall>r v ts. revoked (credentials (nft (world_run \<lparr> reg = r, nft = l', ver = v \<rparr> ts)) t)))
   \<and> (\<forall>l' s src dst k x. transferFrom l s src dst k = Inr l' \<longrightarrow>
         issuer (credentials l' t) = issuer (credentials l t)
         \<and> map_sum id (\<lambda>_. ()) (revokeCredential l' x t)
             = map_sum id (\<lambda>_. ()) (revokeCredential l x t))"
proof -
  have irrev: "revoked (credentials (nft (world_run \<lparr> reg = r, nft = l', ver = v \<rparr> ts)) t)"
    if "revokeCredential l sender t = Inr l'" for l' r v ts
  proof -
    from that have "exists_token l' t \<and> revoked (credentials l' t)"
      by (auto simp: revokeCredential_def exists_token_def split: if_splits)
    then show ?thesis
      using world_run_keeps_revoked [of "\<lparr> reg = r, nft = l', ver = v \<rparr>" t ts] by simp
  qed
  have tr: "issuer (credentials l' t) = issuer (credentials l t)
         \<and> map_sum id (\<lambda>_. ()) (revokeCredential l' x t)
             = map_sum id (\<lambda>_. ()) (revokeCredential l x t)"
    if "transferFrom l s src dst k = Inr l'" for l' s src dst k x
    using transferFrom_keeps_credentials [OF that, of t]
    by (simp add: revokeCredential_def)
  have fail: "world_step \<lparr> reg = r, nft = l, ver = v \<rparr> (sender, now, RevokeCredential t)
          = \<lparr> reg = r, nft = l, ver = v \<rparr>"
    if "isl (revokeCredential l sender t)" for r v now
    using that by (auto simp: world_step_def split: sum.splits)
  have cases: "(\<not> exists_token l t \<longrightarrow>
       revokeCredential l sender t = Inl (Revert ''Credential does not exist''))
   \<and> (exists_token l t \<and> issuer (credentials l t) \<noteq> sender \<longrightarrow>
       revokeCredential l sender t = Inl (Revert ''Only issuer can revoke''))
   \<and> (exists_token l t \<and> issuer (credentials l t) = sender \<and> revoked (credentials l t) \<longrightarrow>
       revokeCredential l sender t = Inl (Revert ''Already revoked''))
   \<and> (isl (revokeCredential l sender t) \<longleftrightarrow>
       (\<not> exists_token l t \<or> issuer (credentials l t) \<noteq> sender \<or> revoked (credentials l t)))"
    by (simp add: revokeCredential_def)
  have ok: "l' = l\<lparr>credentials := (credentials l)(t := (credentials l t)\<lparr>revoked := True\<rparr>)\<rparr>
         \<and> revoked (credentials l' t)"
    if "revokeCredential l sender t = Inr l'" for l'
    using that by (auto simp: revokeCredential_def split: if_splits)
  show ?thesis
    using cases fail ok irrev tr by blast
qed


section \<open>Properties of the verification contract\<close>

text \<open>
  Claim C1. For a minted token, and counters that are not at their maximum (where
  the checked increments panic), \<open>verifyCredentialDetailed\<close> returns a result that
  follows the flags of the ledger's \<open>verifyCredential\<close> in strict priority: revoked
  gives \<open>isValid = false\<close> and the revocation message, whatever the expiry and the
  issuer's authorization; otherwise expired gives \<open>isValid = false\<close> and the expiry
  message; otherwise an issuer that the registry does not authorize gives
  \<open>isValid = false\<close> and the message that the issuer is no longer authorized;
  otherwise the message says valid and \<open>isValid\<close> is the ledger's own flag.
\<close>

theorem verifyCredentialDetailed_priority:
  assumes minted: "exists_token l tokenId"
    and c1: "verificationCount v tokenId + 1 \<noteq> 0"
    and c2: "verifierCount v sender + 1 \<noteq> 0"
    and c3: "totalVerifications v + 1 \<noteq> 0"
  shows "\<exists>v' res isValid iss rcp ctype iname idate expired rvk.
      verifyCredential l now tokenId = Inr (isValid, iss, rcp, ctype, iname, idate, expired, rvk)
      \<and> verifyCredentialDetailed r l v sender now tokenId = Inr (v', res)
      \<and> (rvk \<longrightarrow> \<not> res_isValid res
            \<and> res_message res = ''Credential has been revoked by issuer'')
      \<and> (\<not> rvk \<and> expired \<longrightarrow> \<not> res_isValid res
            \<and> res_message res = ''Credential has expired'')
      \<and> (\<not> rvk \<and> \<not> expired \<and> \<not> isAuthorizedIssuer r iss \<longrightarrow> \<not> res_isValid res
            \<and> res_message res = ''Issuer is no longer authorized'')
      \<and> (\<not> rvk \<and> \<not> expired \<and> isAuthorizedIssuer r iss \<longrightarrow> res_isValid res = isValid
            \<and> res_message res = ''Credential is valid and verified'')
      \<and> rvk = revoked (credentials l tokenId)
      \<and> expired = (expiryDate (credentials l tokenId) \<noteq> 0
                     \<and> now > expiryDate (credentials l tokenId))
      \<and> iss = issuer (credentials l tokenId)"
  using assms
  by (simp add: verifyCredentialDetailed_def verifyCredential_def checked_inc_def Let_def)

text \<open>
  Claim C2 says that a call for a token that was never minted leaves the per-credential
  count of that token unchanged. The three counters are incremented before the
  credential is looked up: on a fresh system, verifying token 7 raises its
  per-credential count from 0 to 1.
\<close>

theorem verifyCredentialDetailed_unminted_counts_token_counterexample:
  "\<not> exists_token (ledger_constructor 10 1) 7
   \<and> verificationCount verification_constructor 7 = 0
   \<and> \<not> isl (verifyCredentialDetailed (registry_constructor 1) (ledger_constructor 10 1)
              verification_constructor 9 100 7)
   \<and> verificationCount (fst (projr (verifyCredentialDetailed (registry_constructor 1)
        (ledger_constructor 10 1) verification_constructor 9 100 7))) 7 = 1"
  by (simp add: verifyCredentialDetailed_def verifyCredential_def checked_inc_def Let_def
      ledger_constructor_def exists_token_def verification_constructor_def)

text \<open>
  Claim C2, amended. For a token that was never minted, and counters that are not at
  their maximum, \<open>verifyCredentialDetailed\<close> returns a result with \<open>exists = false\<close>
  and \<open>isValid = false\<close>, and increments by one the caller's per-verifier count, the
  global total and also the per-credential count of that token id.
\<close>

theorem verifyCredentialDetailed_unminted:
  assumes unminted: "\<not> exists_token l tokenId"
    and c1: "verificationCount v tokenId + 1 \<noteq> 0"
    and c2: "verifierCount v sender + 1 \<noteq> 0"
    and c3: "totalVerifications v + 1 \<noteq> 0"
  shows "\<exists>v' res. verifyCredentialDetailed r l v sender now tokenId = Inr (v', res)
      \<and> \<not> res_exists res \<and> \<not> res_isValid res
      \<and> res_message res = ''Credential does not exist''
      \<and> verifierCount v' sender = verifierCount v sender + 1
      \<and> totalVerifications v' = totalVerifications v + 1
      \<and> verificationCount v' tokenId = verificationCount v tokenId + 1"
  using assms
  by (simp add: verifyCredentialDetailed_def verifyCredential_def checked_inc_def Let_def)

text \<open>
  Claim C9 says that every credential issued by an authorized issuer verifies as valid
  when \<open>verifyCredentialDetailed\<close> is called immediately, with nothing in between.
  \<open>issueCredential\<close> does not look at the expiry it is given: the authorized issuer 2
  issues, at time 300, token 1 with expiry 299, and the verification at the same time
  300, on the state right after the issuance, finds the token, not revoked, its issuer
  still authorized, and returns \<open>expired = true\<close>, \<open>isValid = false\<close> and the
  expiry message.
\<close>

theorem issue_already_expired_counterexample:
  "isAuthorizedIssuer (reg example_world) 2
   \<and> \<not> isl example_issue_expired
   \<and> snd (snd (projr example_issue_expired)) = 1
   \<and> \<not> isl (verifyCredentialDetailed (fst (projr example_issue_expired))
              (fst (snd (projr example_issue_expired))) (ver example_world) 9 300 1)
   \<and> res_exists (snd (projr (verifyCredentialDetailed (fst (projr example_issue_expired))
              (fst (snd (projr example_issue_expired))) (ver example_world) 9 300 1)))
   \<and> \<not> res_revoked (snd (projr (verifyCredentialDetailed (fst (projr example_issue_expired))
              (fst (snd (projr example_issue_expired))) (ver example_world) 9 300 1)))
   \<and> isAuthorizedIssuer (fst (projr example_issue_expired)) 2
   \<and> res_expired (snd (projr (verifyCredentialDetailed (fst (projr example_issue_expired))
              (fst (snd (projr example_issue_expired))) (ver example_world) 9 300 1)))
   \<and> \<not> res_isValid (snd (projr (verifyCredentialDetailed (fst (projr example_issue_expired))
              (fst (snd (projr example_issue_expired))) (ver example_world) 9 300 1)))
   \<and> res_message (snd (projr (verifyCredentialDetailed (fst (projr example_issue_expired))
              (fst (snd (projr example_issue_expired))) (ver example_world) 9 300 1)))
       = ''Credential has expired''"
  by (simp add: world_eval ledger_defs registry_eval Let_def)

lemma issueCredential_result:
  assumes "issueCredential r l sender now rcp ctype iname expiry ipfs uri = Inr (r', l', tokenId)"
  shows "exists_token l' tokenId
     \<and> credentials l' tokenId = \<lparr> issuer = sender, recipient = rcp, credentialType = ctype,
          institutionName = iname, issueDate = now, expiryDate = expiry, ipfsHash = ipfs,
          revoked = False \<rparr>
     \<and> isAuthorizedIssuer r' sender"
  using assms
  by (auto simp: issueCredential_def mint_def setTokenURI_def exists_token_def Let_def
      incrementCredentialCount_def isAuthorizedIssuer_def checked_inc_def
      split: if_splits sum.splits)

text \<open>
  Claim C9, amended. After a successful \<open>issueCredential\<close> (which only an authorized
  issuer obtains) with an expiry that is 0 or not before the time \<open>now'\<close> of the
  verification, \<open>verifyCredentialDetailed\<close> on the returned token id, run on the state
  right after the issuance (so with no revocation and no deauthorization in between),
  returns \<open>isValid = true\<close>, \<open>exists = true\<close>, \<open>revoked = false\<close>,
  \<open>expired = false\<close>, and the issuer, recipient, credential type and institution name
  given at issuance. The counters of the verification contract are below their maximum.
\<close>

theorem issue_then_verify_round_trip:
  assumes issued: "issueCredential r l sender now rcp ctype iname expiry ipfs uri
                     = Inr (r', l', tokenId)"
    and not_expired: "expiry = 0 \<or> now' \<le> expiry"
    and c1: "verificationCount v tokenId + 1 \<noteq> 0"
    and c2: "verifierCount v verifier + 1 \<noteq> 0"
    and c3: "totalVerifications v + 1 \<noteq> 0"
  shows "\<exists>v' res. verifyCredentialDetailed r' l' v verifier now' tokenId = Inr (v', res)
      \<and> res_isValid res \<and> res_exists res \<and> \<not> res_revoked res \<and> \<not> res_expired res
      \<and> res_issuer res = sender \<and> res_recipient res = rcp
      \<and> res_credentialType res = ctype \<and> res_institutionName res = iname"
proof -
  note f = issueCredential_result [OF issued]
  have "\<not> (expiry \<noteq> 0 \<and> now' > expiry)"
    using not_expired by auto
  then show ?thesis
    using f c1 c2 c3
    by (simp add: verifyCredentialDetailed_def verifyCredential_def checked_inc_def Let_def)
qed


section \<open>Properties of the registration workflow\<close>

lemmas workflow_defs = registerUserOnBlockchain_def verification_step_def isRegistered_def
  failed_def hash_or_already_def registration_info_def

lemma wait_None_iff:
  "waitForTransactionWithTimeout c ps = None \<longleftrightarrow>
     (\<forall>rc cur. GotReceipt rc cur \<in> set ps \<longrightarrow> cur - blockNumber rc < c)"
proof (induction ps)
  case Nil
  then show ?case by simp
next
  case (Cons p ps)
  then show ?case by (cases p) (auto simp: Let_def)
qed

lemma verification_step_pending:
  assumes "env_verificationGas env = Inr g" and "env_verificationTx env = Inr h"
    and "waitForTransactionWithTimeout 2 (env_verificationPolls env) = None"
    and "env_dbUpdate env = Inr ()"
  shows "verification_step u env b acts rtx rrc =
     (PendingResponse True ''Registration completed and verification transaction submitted''
        ''verification_pending'' (registration_info rtx rrc) h ''pending'',
      acts @ [SubmitVerifyInstitution (user_walletAddress u) g,
              UserFindByIdAndUpdate (user_id u)
                \<lparr> db_isRegistered = True, db_registrationTxHash = hash_or_already rtx,
                  db_verificationTxHash = h,
                  db_registrationBlockNumber = map_option blockNumber rrc,
                  db_verificationBlockNumber = None, db_verificationStatus = ''pending'' \<rparr>])"
  using assms by (simp add: verification_step_def)

text \<open>
  Claim C4 says that a caller who is already an authorized issuer gets a success
  response. Institution 2 is an authorized issuer in the example system; the workflow
  answers with status 400 and an error body, and submits nothing.
\<close>

theorem already_authorized_counterexample:
  "isAuthorizedIssuer (reg example_world) (user_walletAddress example_user)
   \<and> registerUserOnBlockchain example_user None
        (example_env\<lparr>env_isAuthorized :=
           Inr (isAuthorizedIssuer (reg example_world) (user_walletAddress example_user))\<rparr>)
      = (ErrorResponse 400 ''User is already registered and verified on blockchain'' None, [])"
  by (simp add: workflow_defs world_eval ledger_defs registry_eval Let_def)

text \<open>
  Claim C4, amended. When the registry read by the workflow authorizes the caller's
  wallet address, the workflow short-circuits: it performs no submission and no
  database write, and it answers with an HTTP 400 error response, which for a user of
  an accepted type carries the error "User is already registered and verified on
  blockchain".
\<close>

theorem already_authorized_short_circuits:
  assumes "env_isAuthorized env = Inr (isAuthorizedIssuer r (user_walletAddress u))"
    and "isAuthorizedIssuer r (user_walletAddress u)"
  shows "snd (registerUserOnBlockchain u org_website env) = []
     \<and> (\<exists>msg. fst (registerUserOnBlockchain u org_website env) = ErrorResponse 400 msg None)
     \<and> (userType u \<in> set [''institution'', ''company'', ''verifier'']
          \<longrightarrow> fst (registerUserOnBlockchain u org_website env)
              = ErrorResponse 400 ''User is already registered and verified on blockchain'' None)"
  using assms by (simp add: registerUserOnBlockchain_def)

text \<open>
  Claim C3 says that a workflow whose submitted transaction does not reach the
  confirmation depth before the deadline returns a pending response. When it is the
  registration transaction that does not (here the only receipt seen has one
  confirmation, two are required), the workflow throws and answers with status 500
  "Failed to register on blockchain"; nothing is persisted.
\<close>

theorem registration_timeout_counterexample:
  "waitForTransactionWithTimeout 2
       [NoReceipt, PollError, GotReceipt \<lparr> blockNumber = 7, gasUsed = None \<rparr> 8] = None
   \<and> registerUserOnBlockchain example_user None
        (example_env\<lparr>env_registrationPolls :=
           [NoReceipt, PollError, GotReceipt \<lparr> blockNumber = 7, gasUsed = None \<rparr> 8]\<rparr>)
      = (ErrorResponse 500 ''Failed to register on blockchain''
           (Some ''Registration transaction timed out - please check transaction status manually''),
         [SubmitRegisterInstitution 2 ''MIT'' [] ''a@mit.edu'' []
            \<lparr> gasLimit = ''100000'', gasPrice = ''1'' \<rparr>])"
  by (simp add: workflow_defs empty_institution_def)

text \<open>
  Claim C3, amended. For a user of an accepted type whom the registry does not yet
  authorize: when the verification transaction is submitted (the institution was
  already registered, or the registration transaction was confirmed) and no poll before
  the deadline sees it with two confirmations, and the database update succeeds, the
  workflow returns the pending response (success, status "verification_pending") with
  the hash of the verification transaction, after persisting the verification status
  "pending". When the registration transaction is the one that no poll sees with two
  confirmations, the workflow answers with HTTP 500 "Failed to register on blockchain"
  and the time-out message, having submitted the registration only. In both cases the
  wait ends when the polls before the deadline are exhausted.
\<close>

theorem timeout_pending_or_failed:
  assumes type_ok: "userType u \<in> set [''institution'', ''company'', ''verifier'']"
    and not_authorized: "env_isAuthorized env = Inr False"
  shows "(\<not> isRegistered env \<and> env_registrationGas env = Inr g \<and> env_registrationTx env = Inr h
          \<and> (\<forall>rc cur. GotReceipt rc cur \<in> set (env_registrationPolls env)
                 \<longrightarrow> cur - blockNumber rc < 2)
        \<longrightarrow> registerUserOnBlockchain u org_website env
            = (ErrorResponse 500 ''Failed to register on blockchain''
                 (Some ''Registration transaction timed out - please check transaction status manually''),
               [SubmitRegisterInstitution (user_walletAddress u) (user_name u)
                  (case org_website of None \<Rightarrow> [] | Some x \<Rightarrow> x) (user_email u) [] g]))
     \<and> ((isRegistered env
           \<or> (\<exists>g' h' rc. env_registrationGas env = Inr g' \<and> env_registrationTx env = Inr h'
                \<and> waitForTransactionWithTimeout 2 (env_registrationPolls env) = Some rc))
          \<and> env_verificationGas env = Inr vg \<and> env_verificationTx env = Inr vh
          \<and> (\<forall>rc cur. GotReceipt rc cur \<in> set (env_verificationPolls env)
                 \<longrightarrow> cur - blockNumber rc < 2)
          \<and> env_dbUpdate env = Inr ()
        \<longrightarrow> (\<exists>info acts upd. registerUserOnBlockchain u org_website env
               = (PendingResponse True
                    ''Registration completed and verification transaction submitted''
                    ''verification_pending'' info vh ''pending'',
                  acts @ [SubmitVerifyInstitution (user_walletAddress u) vg,
                          UserFindByIdAndUpdate (user_id u) upd])
              \<and> db_verificationStatus upd = ''pending'' \<and> db_verificationTxHash upd = vh
              \<and> db_verificationBlockNumber upd = None))"
proof (intro conjI impI)
  assume "\<not> isRegistered env \<and> env_registrationGas env = Inr g \<and> env_registrationTx env = Inr h
          \<and> (\<forall>rc cur. GotReceipt rc cur \<in> set (env_registrationPolls env)
                 \<longrightarrow> cur - blockNumber rc < 2)"
  then have "\<not> isRegistered env \<and> env_registrationGas env = Inr g \<and> env_registrationTx env = Inr h
          \<and> waitForTransactionWithTimeout 2 (env_registrationPolls env) = None"
    by (simp add: wait_None_iff)
  then show "registerUserOnBlockchain u org_website env
            = (ErrorResponse 500 ''Failed to register on blockchain''
                 (Some ''Registration transaction timed out - please check transaction status manually''),
               [SubmitRegisterInstitution (user_walletAddress u) (user_name u)
                  (case org_website of None \<Rightarrow> [] | Some x \<Rightarrow> x) (user_email u) [] g])"
    using type_ok not_authorized by (simp add: registerUserOnBlockchain_def failed_def)
next
  assume a: "(isRegistered env
           \<or> (\<exists>g' h' rc. env_registrationGas env = Inr g' \<and> env_registrationTx env = Inr h'
                \<and> waitForTransactionWithTimeout 2 (env_registrationPolls env) = Some rc))
          \<and> env_verificationGas env = Inr vg \<and> env_verificationTx env = Inr vh
          \<and> (\<forall>rc cur. GotReceipt rc cur \<in> set (env_verificationPolls env)
                 \<longrightarrow> cur - blockNumber rc < 2)
          \<and> env_dbUpdate env = Inr ()"
  then have "waitForTransactionWithTimeout 2 (env_verificationPolls env) = None"
    by (simp add: wait_None_iff)
  with a have v: "\<And>b acts rtx rrc. verification_step u env b acts rtx rrc =
     (PendingResponse True ''Registration completed and verification transaction submitted''
        ''verification_pending'' (registration_info rtx rrc) vh ''pending'',
      acts @ [SubmitVerifyInstitution (user_walletAddress u) vg,
              UserFindByIdAndUpdate (user_id u)
                \<lparr> db_isRegistered = True, db_registrationTxHash = hash_or_already rtx,
                  db_verificationTxHash = vh,
                  db_registrationBlockNumber = map_option blockNumber rrc,
                  db_verificationBlockNumber = None, db_verificationStatus = ''pending'' \<rparr>])"
    using verification_step_pending by blast
  show "\<exists>info acts upd. registerUserOnBlockchain u org_website env
               = (PendingResponse True
                    ''Registration completed and verification transaction submitted''
                    ''verification_pending'' info vh ''pending'',
                  acts @ [SubmitVerifyInstitution (user_walletAddress u) vg,
                          UserFindByIdAndUpdate (user_id u) upd])
              \<and> db_verificationStatus upd = ''pending'' \<and> db_verificationTxHash upd = vh
              \<and> db_verificationBlockNumber upd = None"
  proof (cases "isRegistered env")
    case True
    then show ?thesis
      using type_ok not_authorized by (simp add: registerUserOnBlockchain_def v)
  next
    case False
    with a obtain g' h' rc where "env_registrationGas env = Inr g'"
      "env_registrationTx env = Inr h'"
      "waitForTransactionWithTimeout 2 (env_registrationPolls env) = Some rc" by blast
    then show ?thesis
      using False type_ok not_authorized by (simp add: registerUserOnBlockchain_def v)
  qed
qed


section \<open>Instances at the example states\<close>

text \<open>
  Each theorem above that has hypotheses is applied here to the example states, where
  its hypotheses are evaluated and hold.
\<close>

lemmas example_eval = world_eval ledger_defs registry_eval Let_def

theorem verifyCredential_expiry_is_strict_witness:
  "exists_token (nft example_world) 0
   \<and> expiryDate (credentials (nft example_world) 0) = 200
   \<and> verifyCredential (nft example_world) 200 0
       = Inr (True, 2, 5, ''Degree'', ''MIT'', 102, False, False)
   \<and> verifyCredential (nft example_world) 201 0
       = Inr (False, 2, 5, ''Degree'', ''MIT'', 102, True, False)
   \<and> (\<exists>isValid iss rcp ctype iname idate expired rvk.
      verifyCredential (nft example_world) 200 0
        = Inr (isValid, iss, rcp, ctype, iname, idate, expired, rvk)
      \<and> expired = (expiryDate (credentials (nft example_world) 0) \<noteq> 0
                    \<and> 200 > expiryDate (credentials (nft example_world) 0))
      \<and> (expiryDate (credentials (nft example_world) 0) = 0 \<longrightarrow> \<not> expired)
      \<and> (expiryDate (credentials (nft example_world) 0) = 200 \<longrightarrow> \<not> expired)
      \<and> (expiryDate (credentials (nft example_world) 0) \<noteq> 0
            \<and> expiryDate (credentials (nft example_world) 0) < 200 \<longrightarrow> expired)
      \<and> isValid = (\<not> revoked (credentials (nft example_world) 0) \<and> \<not> expired))"
proof -
  have h: "exists_token (nft example_world) 0"
    by (simp add: example_eval)
  have e: "expiryDate (credentials (nft example_world) 0) = 200
   \<and> verifyCredential (nft example_world) 200 0
       = Inr (True, 2, 5, ''Degree'', ''MIT'', 102, False, False)
   \<and> verifyCredential (nft example_world) 201 0
       = Inr (False, 2, 5, ''Degree'', ''MIT'', 102, True, False)"
    by (simp add: example_eval)
  show ?thesis
    using h e verifyCredential_expiry_is_strict [OF h, of 200] by blast
qed

theorem verifyCredentialDetailed_priority_witness:
  "exists_token (nft example_world) 0
   \<and> verificationCount (ver example_world) 0 + 1 \<noteq> 0
   \<and> verifierCount (ver example_world) 9 + 1 \<noteq> 0
   \<and> totalVerifications (ver example_world) + 1 \<noteq> 0
   \<and> (\<exists>v' res isValid iss rcp ctype iname idate expired rvk.
      verifyCredential (nft example_world) 150 0
        = Inr (isValid, iss, rcp, ctype, iname, idate, expired, rvk)
      \<and> verifyCredentialDetailed (reg example_world) (nft example_world) (ver example_world)
           9 150 0 = Inr (v', res)
      \<and> (rvk \<longrightarrow> \<not> res_isValid res
            \<and> res_message res = ''Credential has been revoked by issuer'')
      \<and> (\<not> rvk \<and> expired \<longrightarrow> \<not> res_isValid res
            \<and> res_message res = ''Credential has expired'')
      \<and> (\<not> rvk \<and> \<not> expired \<and> \<not> isAuthorizedIssuer (reg example_world) iss
            \<longrightarrow> \<not> res_isValid res \<and> res_message res = ''Issuer is no longer authorized'')
      \<and> (\<not> rvk \<and> \<not> expired \<and> isAuthorizedIssuer (reg example_world) iss
            \<longrightarrow> res_isValid res = isValid
            \<and> res_message res = ''Credential is valid and verified'')
      \<and> rvk = revoked (credentials (nft example_world) 0)
      \<and> expired = (expiryDate (credentials (nft example_world) 0) \<noteq> 0
                     \<and> 150 > expiryDate (credentials (nft example_world) 0))
      \<and> iss = issuer (credentials (nft example_world) 0))"
proof -
  have h: "exists_token (nft example_world) 0"
    by (simp add: example_eval)
  have c1: "verificationCount (ver example_world) 0 + 1 \<noteq> 0"
    by (simp add: example_eval)
  have c2: "verifierCount (ver example_world) 9 + 1 \<noteq> 0"
    by (simp add: example_eval)
  have c3: "totalVerifications (ver example_world) + 1 \<noteq> 0"
    by (simp add: example_eval)
  show ?thesis
    using h c1 c2 c3
      verifyCredentialDetailed_priority [OF h c1 c2 c3, of 150 "reg example_world"]
    by blast
qed

theorem verifyCredentialDetailed_unminted_witness:
  "\<not> exists_token (nft example_world) 999
   \<and> verificationCount (ver example_world) 999 + 1 \<noteq> 0
   \<and> verifierCount (ver example_world) 9 + 1 \<noteq> 0
   \<and> totalVerifications (ver example_world) + 1 \<noteq> 0
   \<and> (\<exists>v' res. verifyCredentialDetailed (reg example_world) (nft example_world)
          (ver example_world) 9 150 999 = Inr (v', res)
      \<and> \<not> res_exists res \<and> \<not> res_isValid res
      \<and> res_message res = ''Credential does not exist''
      \<and> verifierCount v' 9 = verifierCount (ver example_world) 9 + 1
      \<and> totalVerifications v' = totalVerifications (ver example_world) + 1
      \<and> verificationCount v' 999 = verificationCount (ver example_world) 999 + 1)"
proof -
  have h: "\<not> exists_token (nft example_world) 999"
    by (simp add: example_eval)
  have c1: "verificationCount (ver example_world) 999 + 1 \<noteq> 0"
    by (simp add: example_eval)
  have c2: "verifierCount (ver example_world) 9 + 1 \<noteq> 0"
    by (simp add: example_eval)
  have c3: "totalVerifications (ver example_world) + 1 \<noteq> 0"
    by (simp add: example_eval)
  show ?thesis
    using h c1 c2 c3
      verifyCredentialDetailed_unminted [OF h c1 c2 c3, of "reg example_world" 150]
    by blast
qed


theorem issue_then_verify_round_trip_witness:
  "\<not> isl example_issue
   \<and> snd (snd (projr example_issue)) = 1
   \<and> (0 = (0::uint256) \<or> (300::uint256) \<le> 0)
   \<and> verificationCount (ver example_world) 1 + 1 \<noteq> 0
   \<and> verifierCount (ver example_world) 9 + 1 \<noteq> 0
   \<and> totalVerifications (ver example_world) + 1 \<noteq> 0
   \<and> (\<exists>v' res. verifyCredentialDetailed (fst (projr example_issue))
          (fst (snd (projr example_issue))) (ver example_world) 9 300 1 = Inr (v', res)
      \<and> res_isValid res \<and> res_exists res \<and> \<not> res_revoked res \<and> \<not> res_expired res
      \<and> res_issuer res = 2 \<and> res_recipient res = 6
      \<and> res_credentialType res = ''Certificate'' \<and> res_institutionName res = ''MIT'')"
proof -
  have ok: "\<not> isl example_issue \<and> snd (snd (projr example_issue)) = 1"
    by (simp add: example_eval)
  then have i: "example_issue
      = Inr (fst (projr example_issue), fst (snd (projr example_issue)), 1)"
    by (cases example_issue) auto
  have e: "0 = (0::uint256) \<or> (300::uint256) \<le> 0" by simp
  have c1: "verificationCount (ver example_world) 1 + 1 \<noteq> 0"
    by (simp add: example_eval)
  have c2: "verifierCount (ver example_world) 9 + 1 \<noteq> 0"
    by (simp add: example_eval)
  have c3: "totalVerifications (ver example_world) + 1 \<noteq> 0"
    by (simp add: example_eval)
  show ?thesis
    using ok e c1 c2 c3 issue_then_verify_round_trip [OF i e c1 c2 c3] by blast
qed

theorem already_authorized_short_circuits_witness:
  "env_isAuthorized (example_env\<lparr>env_isAuthorized :=
        Inr (isAuthorizedIssuer (reg example_world) (user_walletAddress example_user))\<rparr>)
     = Inr (isAuthorizedIssuer (reg example_world) (user_walletAddress example_user))
   \<and> isAuthorizedIssuer (reg example_world) (user_walletAddress example_user)
   \<and> userType example_user \<in> set [''institution'', ''company'', ''verifier'']
   \<and> snd (registerUserOnBlockchain example_user (Some ''mit.edu'')
        (example_env\<lparr>env_isAuthorized :=
           Inr (isAuthorizedIssuer (reg example_world) (user_walletAddress example_user))\<rparr>)) = []
   \<and> fst (registerUserOnBlockchain example_user (Some ''mit.edu'')
        (example_env\<lparr>env_isAuthorized :=
           Inr (isAuthorizedIssuer (reg example_world) (user_walletAddress example_user))\<rparr>))
      = ErrorResponse 400 ''User is already registered and verified on blockchain'' None"
proof -
  have a: "env_isAuthorized (example_env\<lparr>env_isAuthorized :=
        Inr (isAuthorizedIssuer (reg example_world) (user_walletAddress example_user))\<rparr>)
     = Inr (isAuthorizedIssuer (reg example_world) (user_walletAddress example_user))"
    by simp
  have b: "isAuthorizedIssuer (reg example_world) (user_walletAddress example_user)"
    by (simp add: example_eval)
  have c: "userType example_user \<in> set [''institution'', ''company'', ''verifier'']"
    by simp
  show ?thesis
    using a b c already_authorized_short_circuits [OF a b, of "Some ''mit.edu''"] by blast
qed

theorem timeout_pending_or_failed_witness:
  "userType example_user \<in> set [''institution'', ''company'', ''verifier'']
   \<and> registerUserOnBlockchain example_user None
        (example_env\<lparr>env_registrationPolls :=
           [NoReceipt, PollError, GotReceipt \<lparr> blockNumber = 7, gasUsed = None \<rparr> 8]\<rparr>)
      = (ErrorResponse 500 ''Failed to register on blockchain''
           (Some ''Registration transaction timed out - please check transaction status manually''),
         [SubmitRegisterInstitution 2 ''MIT'' [] ''a@mit.edu'' []
            \<lparr> gasLimit = ''100000'', gasPrice = ''1'' \<rparr>])
   \<and> (\<exists>info acts upd. registerUserOnBlockchain example_user None
          (example_env\<lparr>env_verificationPolls :=
             [NoReceipt, GotReceipt \<lparr> blockNumber = 10, gasUsed = None \<rparr> 11]\<rparr>)
        = (PendingResponse True ''Registration completed and verification transaction submitted''
             ''verification_pending'' info ''0xbb'' ''pending'',
           acts @ [SubmitVerifyInstitution 2 \<lparr> gasLimit = ''60000'', gasPrice = ''1'' \<rparr>,
                   UserFindByIdAndUpdate ''u1'' upd])
        \<and> db_verificationStatus upd = ''pending'' \<and> db_verificationTxHash upd = ''0xbb''
        \<and> db_verificationBlockNumber upd = None)"
proof -
  have t: "userType example_user \<in> set [''institution'', ''company'', ''verifier'']"
    by simp
  have n1: "env_isAuthorized (example_env\<lparr>env_registrationPolls :=
           [NoReceipt, PollError, GotReceipt \<lparr> blockNumber = 7, gasUsed = None \<rparr> 8]\<rparr>)
       = Inr False" by simp
  have n2: "env_isAuthorized (example_env\<lparr>env_verificationPolls :=
             [NoReceipt, GotReceipt \<lparr> blockNumber = 10, gasUsed = None \<rparr> 11]\<rparr>)
       = Inr False" by simp
  have h1: "\<not> isRegistered (example_env\<lparr>env_registrationPolls :=
           [NoReceipt, PollError, GotReceipt \<lparr> blockNumber = 7, gasUsed = None \<rparr> 8]\<rparr>)
     \<and> env_registrationGas (example_env\<lparr>env_registrationPolls :=
           [NoReceipt, PollError, GotReceipt \<lparr> blockNumber = 7, gasUsed = None \<rparr> 8]\<rparr>)
         = Inr \<lparr> gasLimit = ''100000'', gasPrice = ''1'' \<rparr>
     \<and> env_registrationTx (example_env\<lparr>env_registrationPolls :=
           [NoReceipt, PollError, GotReceipt \<lparr> blockNumber = 7, gasUsed = None \<rparr> 8]\<rparr>)
         = Inr ''0xaa''
     \<and> (\<forall>rc cur. GotReceipt rc cur \<in> set (env_registrationPolls
           (example_env\<lparr>env_registrationPolls :=
           [NoReceipt, PollError, GotReceipt \<lparr> blockNumber = 7, gasUsed = None \<rparr> 8]\<rparr>))
                 \<longrightarrow> cur - blockNumber rc < 2)"
    by (auto simp: isRegistered_def empty_institution_def)
  have h2: "(isRegistered (example_env\<lparr>env_verificationPolls :=
             [NoReceipt, GotReceipt \<lparr> blockNumber = 10, gasUsed = None \<rparr> 11]\<rparr>)
           \<or> (\<exists>g' h' rc. env_registrationGas (example_env\<lparr>env_verificationPolls :=
             [NoReceipt, GotReceipt \<lparr> blockNumber = 10, gasUsed = None \<rparr> 11]\<rparr>) = Inr g'
                \<and> env_registrationTx (example_env\<lparr>env_verificationPolls :=
             [NoReceipt, GotReceipt \<lparr> blockNumber = 10, gasUsed = None \<rparr> 11]\<rparr>) = Inr h'
                \<and> waitForTransactionWithTimeout 2 (env_registrationPolls
                     (example_env\<lparr>env_verificationPolls :=
             [NoReceipt, GotReceipt \<lparr> blockNumber = 10, gasUsed = None \<rparr> 11]\<rparr>)) = Some rc))
          \<and> env_verificationGas (example_env\<lparr>env_verificationPolls :=
             [NoReceipt, GotReceipt \<lparr> blockNumber = 10, gasUsed = None \<rparr> 11]\<rparr>)
              = Inr \<lparr> gasLimit = ''60000'', gasPrice = ''1'' \<rparr>
          \<and> env_verificationTx (example_env\<lparr>env_verificationPolls :=
             [NoReceipt, GotReceipt \<lparr> blockNumber = 10, gasUsed = None \<rparr> 11]\<rparr>) = Inr ''0xbb''
          \<and> (\<forall>rc cur. GotReceipt rc cur \<in> set (env_verificationPolls
                (example_env\<lparr>env_verificationPolls :=
             [NoReceipt, GotReceipt \<lparr> blockNumber = 10, gasUsed = None \<rparr> 11]\<rparr>))
                 \<longrightarrow> cur - blockNumber rc < 2)
          \<and> env_dbUpdate (example_env\<lparr>env_verificationPolls :=
             [NoReceipt, GotReceipt \<lparr> blockNumber = 10, gasUsed = None \<rparr> 11]\<rparr>) = Inr ()"
    by (auto simp: Let_def)
  show ?thesis
    using h1 h2
      timeout_pending_or_failed [OF t n1, of "\<lparr> gasLimit = ''100000'', gasPrice = ''1'' \<rparr>"
        "''0xaa''" None "\<lparr> gasLimit = ''60000'', gasPrice = ''1'' \<rparr>" "''0xbb''"]
      timeout_pending_or_failed [OF t n2, of "\<lparr> gasLimit = ''100000'', gasPrice = ''1'' \<rparr>"
        "''0xaa''" None "\<lparr> gasLimit = ''60000'', gasPrice = ''1'' \<rparr>" "''0xbb''"]
    by simp
qed


theorem revokeCredential_failures_and_irreversible_witness:
  "\<not> exists_token (nft example_world) 1
   \<and> revokeCredential (nft example_world) 2 1 = Inl (Revert ''Credential does not exist'')
   \<and> exists_token (nft example_world) 0
   \<and> issuer (credentials (nft example_world) 0) \<noteq> 5
   \<and> owners (nft example_world) 0 = 5
   \<and> revokeCredential (nft example_world) 5 0 = Inl (Revert ''Only issuer can revoke'')
   \<and> \<not> isl (revokeCredential (nft example_world) 2 0)
   \<and> (\<forall>r v ts. revoked (credentials (nft (world_run
          \<lparr> reg = r, nft = projr (revokeCredential (nft example_world) 2 0), ver = v \<rparr> ts)) 0))
   \<and> revokeCredential (projr (revokeCredential (nft example_world) 2 0)) 2 0
       = Inl (Revert ''Already revoked'')
   \<and> \<not> isl (transferFrom (nft example_world) 5 5 6 0)
   \<and> issuer (credentials (projr (transferFrom (nft example_world) 5 5 6 0)) 0) = 2"
proof -
  have a: "\<not> exists_token (nft example_world) 1"
    by (simp add: example_eval)
  have b: "exists_token (nft example_world) 0
     \<and> issuer (credentials (nft example_world) 0) \<noteq> 5
     \<and> issuer (credentials (nft example_world) 0) = 2
     \<and> \<not> revoked (credentials (nft example_world) 0)
     \<and> owners (nft example_world) 0 = 5"
    by (simp add: example_eval)
  have c: "\<not> isl (revokeCredential (nft example_world) 2 0)"
    using b revokeCredential_failures_and_irreversible [of "nft example_world" 0 2] by blast
  then have c': "revokeCredential (nft example_world) 2 0
      = Inr (projr (revokeCredential (nft example_world) 2 0))"
    by (cases "revokeCredential (nft example_world) 2 0") auto
  have d: "\<forall>r v ts. revoked (credentials (nft (world_run
          \<lparr> reg = r, nft = projr (revokeCredential (nft example_world) 2 0), ver = v \<rparr> ts)) 0)"
    using c' revokeCredential_failures_and_irreversible [of "nft example_world" 0 2] by blast
  have e: "exists_token (projr (revokeCredential (nft example_world) 2 0)) 0
     \<and> issuer (credentials (projr (revokeCredential (nft example_world) 2 0)) 0) = 2
     \<and> revoked (credentials (projr (revokeCredential (nft example_world) 2 0)) 0)"
    using b by (simp add: revokeCredential_def exists_token_def)
  have f: "revokeCredential (projr (revokeCredential (nft example_world) 2 0)) 2 0
       = Inl (Revert ''Already revoked'')"
    using e revokeCredential_failures_and_irreversible
      [of "projr (revokeCredential (nft example_world) 2 0)" 0 2] by blast
  have g: "\<not> isl (transferFrom (nft example_world) 5 5 6 0)"
    using b by (simp add: transferFrom_def isApprovedOrOwner_def ownerOf_def)
  then have g': "transferFrom (nft example_world) 5 5 6 0
      = Inr (projr (transferFrom (nft example_world) 5 5 6 0))"
    by (cases "transferFrom (nft example_world) 5 5 6 0") auto
  have h: "issuer (credentials (projr (transferFrom (nft example_world) 5 5 6 0)) 0) = 2"
    using b g' revokeCredential_failures_and_irreversible [of "nft example_world" 0 2]
    by metis
  show ?thesis
    using a b c d f g h
      revokeCredential_failures_and_irreversible [of "nft example_world" 1 2]
      revokeCredential_failures_and_irreversible [of "nft example_world" 0 5]
    by blast
qed

end
